theory Spec2Isabelle
  imports Main "HOL-Library.Multiset" "HOL-Library.Char_ord" "HOL-Library.List_Lexorder"
begin

section \<open>Python values and exceptions\<close>

text \<open>
  The exceptions the modelled functions of \<^verbatim>\<open>app.py\<close> can raise: a missing dictionary key,
  an index into an empty list, \<^verbatim>\<open>int(None)\<close>, and the explicit \<^verbatim>\<open>AssertionError\<close>s of the
  store helpers.
\<close>

datatype error = KeyError string | IndexError | TypeError | AssertionError string

definition ebind :: "error + 'a \<Rightarrow> ('a \<Rightarrow> error + 'b) \<Rightarrow> error + 'b" where
  "ebind x f = (case x of Inl e \<Rightarrow> Inl e | Inr a \<Rightarrow> f a)"

text \<open>\<^verbatim>\<open>d.get(k, default)\<close> on a dictionary.\<close>

definition dict_get :: "('k \<rightharpoonup> 'v) \<Rightarrow> 'k \<Rightarrow> 'v \<Rightarrow> 'v" where
  "dict_get d k dflt = (case d k of None \<Rightarrow> dflt | Some v \<Rightarrow> v)"

section \<open>Role lookup\<close>

type_synonym roles = "string \<rightharpoonup> string"

text \<open>
  The comprehension \<^verbatim>\<open>[p for p in player_names if role_assignment[p] == role]\<close>: it
  subscripts the dictionary at every player, so the first player without an entry raises
  \<^verbatim>\<open>KeyError\<close> before any result is produced.
\<close>

fun select_role :: "string list \<Rightarrow> roles \<Rightarrow> string \<Rightarrow> error + string list" where
  "select_role [] ra role = Inr []"
| "select_role (p # ps) ra role =
     (case ra p of
        None \<Rightarrow> Inl (KeyError p)
      | Some r \<Rightarrow> ebind (select_role ps ra role) (\<lambda>rest. Inr (if r = role then p # rest else rest)))"

text \<open>\<^verbatim>\<open>xs[0]\<close>: \<^verbatim>\<open>IndexError\<close> on the empty list.\<close>

definition first :: "'a list \<Rightarrow> error + 'a" where
  "first xs = (case xs of [] \<Rightarrow> Inl IndexError | x # _ \<Rightarrow> Inr x)"

definition player_with_role :: "string list \<Rightarrow> roles \<Rightarrow> string \<Rightarrow> error + string" where
  "player_with_role player_names role_assignment role =
     ebind (select_role player_names role_assignment role) first"

section \<open>Score calculator\<close>

type_synonym points = "string \<rightharpoonup> int"

text \<open>The loop \<^verbatim>\<open>for player in player_names: points[player] = 0\<close>.\<close>

definition init_points :: "string list \<Rightarrow> points" where
  "init_points player_names = fold (\<lambda>player pts. pts(player \<mapsto> 0)) player_names Map.empty"

text \<open>
  A guess is a player name or Python's \<^verbatim>\<open>None\<close> (what the room row holds before a guess is
  recorded); \<^verbatim>\<open>guess == name\<close> is then \<open>guess = Some name\<close>.
\<close>

definition calculate_points_4_players ::
  "string list \<Rightarrow> roles \<Rightarrow> string option \<times> string option \<Rightarrow> error + points" where
  "calculate_points_4_players player_names role_assignment mantri_guesses =
     (let points = init_points player_names in
      ebind (player_with_role player_names role_assignment ''Chor'') (\<lambda>actual_chor.
      ebind (player_with_role player_names role_assignment ''Sipahi'') (\<lambda>actual_sipahi.
      ebind (player_with_role player_names role_assignment ''Mantri'') (\<lambda>mantri_name.
      ebind (player_with_role player_names role_assignment ''Raja'') (\<lambda>raja_name.
        let (guessed_chor, guessed_sipahi) = mantri_guesses;
            mantri_correct = (guessed_chor = Some actual_chor \<and> guessed_sipahi = Some actual_sipahi);
            points = (if mantri_correct
                      then (points(mantri_name \<mapsto> 500))(actual_chor \<mapsto> 0)
                      else (points(mantri_name \<mapsto> 0))(actual_chor \<mapsto> 500));
            points = points(raja_name \<mapsto> 1000);
            points = points(actual_sipahi \<mapsto> 250)
        in Inr points)))))"

text \<open>
  \<^verbatim>\<open>points[actual_chor] += 500\<close> reads the entry before writing it; the read is modelled with
  its \<^verbatim>\<open>KeyError\<close> although the entry was written a few lines before.
\<close>

definition calculate_points_5_players ::
  "string list \<Rightarrow> roles \<Rightarrow> string option \<times> string option \<Rightarrow> string option \<Rightarrow> error + points" where
  "calculate_points_5_players player_names role_assignment mantri_guesses raja_rani_guess =
     (let points = init_points player_names in
      ebind (player_with_role player_names role_assignment ''Chor'') (\<lambda>actual_chor.
      ebind (player_with_role player_names role_assignment ''Sipahi'') (\<lambda>actual_sipahi.
      ebind (player_with_role player_names role_assignment ''Rani'') (\<lambda>actual_rani.
      ebind (player_with_role player_names role_assignment ''Mantri'') (\<lambda>mantri_name.
      ebind (player_with_role player_names role_assignment ''Raja'') (\<lambda>raja_name.
        let (guessed_chor, guessed_sipahi) = mantri_guesses;
            mantri_both_correct =
              (guessed_chor = Some actual_chor \<and> guessed_sipahi = Some actual_sipahi);
            points = (if mantri_both_correct
                      then (points(mantri_name \<mapsto> 500))(actual_chor \<mapsto> 0)
                      else (points(mantri_name \<mapsto> 0))(actual_chor \<mapsto> 500));
            points = points(actual_sipahi \<mapsto> 250)
        in ebind (if raja_rani_guess = Some actual_rani
                  then Inr (points(raja_name \<mapsto> 1000))
                  else (let points = points(raja_name \<mapsto> 500)
                        in case points actual_chor of
                             None \<Rightarrow> Inl (KeyError actual_chor)
                           | Some v \<Rightarrow> Inr (points(actual_chor \<mapsto> v + 500))))
             (\<lambda>points. Inr (points(actual_rani \<mapsto> 750)))))))))"

text \<open>
  The points a round awards to the players, as the callers read them
  (\<^verbatim>\<open>int(pts.get(pname, 0))\<close> for every player), and their sum.
\<close>

definition awarded :: "points \<Rightarrow> string list \<Rightarrow> int list" where
  "awarded pts player_names = map (\<lambda>pname. dict_get pts pname 0) player_names"

definition round_total :: "points \<Rightarrow> string list \<Rightarrow> int" where
  "round_total pts player_names = sum_list (awarded pts player_names)"

text \<open>
  A role assignment that is a bijection from the (distinct) player names onto a role set.
\<close>

definition role_bijection :: "string list \<Rightarrow> roles \<Rightarrow> string set \<Rightarrow> bool" where
  "role_bijection player_names role_assignment role_set \<longleftrightarrow>
     distinct player_names \<and> dom role_assignment = set player_names \<and>
     bij_betw (\<lambda>p. the (role_assignment p)) (set player_names) role_set"

definition roles4 :: "string set" where
  "roles4 = {''Raja'', ''Mantri'', ''Sipahi'', ''Chor''}"

definition roles5 :: "string set" where
  "roles5 = {''Raja'', ''Rani'', ''Mantri'', ''Sipahi'', ''Chor''}"

section \<open>Role assigner\<close>

text \<open>
  \<^verbatim>\<open>random.shuffle\<close> is the standard library's in-place Fisher-Yates loop
  \<^verbatim>\<open>for i in reversed(range(1, len(x))): j = randbelow(i + 1); x[i], x[j] = x[j], x[i]\<close>.
  The random source is a parameter \<open>rnd\<close>: the draw at position \<open>i\<close> is
  \<open>rnd i mod (i + 1)\<close>, so every source gives draws in range.
\<close>

fun shuffle_loop :: "(nat \<Rightarrow> nat) \<Rightarrow> nat \<Rightarrow> 'a list \<Rightarrow> 'a list" where
  "shuffle_loop rnd 0 x = x"
| "shuffle_loop rnd (Suc i) x =
     (let j = rnd (Suc i) mod (Suc i + 1)
      in shuffle_loop rnd i (x[Suc i := x ! j, j := x ! Suc i]))"

definition shuffle :: "(nat \<Rightarrow> nat) \<Rightarrow> 'a list \<Rightarrow> 'a list" where
  "shuffle rnd x = shuffle_loop rnd (length x - 1) x"

text \<open>
  \<^verbatim>\<open>dict(zip(keys, values))\<close>: \<open>zip\<close> stops at the shorter list, and a key that occurs
  again takes the later value.
\<close>

definition dict_zip :: "'k list \<Rightarrow> 'v list \<Rightarrow> ('k \<rightharpoonup> 'v)" where
  "dict_zip ks vs = fold (\<lambda>(k, v) d. d(k \<mapsto> v)) (zip ks vs) Map.empty"

definition assign_roles_5_players :: "(nat \<Rightarrow> nat) \<Rightarrow> string list \<Rightarrow> roles" where
  "assign_roles_5_players rnd player_names =
     (let roles = [''Raja'', ''Rani'', ''Mantri'', ''Sipahi'', ''Chor''];
          shuffled_players = shuffle rnd player_names
      in dict_zip shuffled_players roles)"

definition assign_roles_4_players :: "(nat \<Rightarrow> nat) \<Rightarrow> string list \<Rightarrow> roles" where
  "assign_roles_4_players rnd player_names =
     (let roles = [''Raja'', ''Mantri'', ''Sipahi'', ''Chor''];
          shuffled_players = shuffle rnd player_names
      in dict_zip shuffled_players roles)"

definition compute_roles_for_round :: "(nat \<Rightarrow> nat) \<Rightarrow> string list \<Rightarrow> int \<Rightarrow> roles" where
  "compute_roles_for_round rnd player_ids num_players =
     (if num_players = 5 then assign_roles_5_players rnd player_ids
      else assign_roles_4_players rnd player_ids)"

text \<open>
  The players Mantri guesses among, everyone but Raja and Mantri:
  \<^verbatim>\<open>[p for p in player_names if role_assignment[p] not in ['Raja', 'Mantri']]\<close>.
\<close>

fun eligible_hidden_players :: "string list \<Rightarrow> roles \<Rightarrow> error + string list" where
  "eligible_hidden_players [] role_assignment = Inr []"
| "eligible_hidden_players (p # ps) role_assignment =
     (case role_assignment p of
        None \<Rightarrow> Inl (KeyError p)
      | Some r \<Rightarrow> ebind (eligible_hidden_players ps role_assignment)
                   (\<lambda>rest. Inr (if r \<notin> {''Raja'', ''Mantri''} then p # rest else rest)))"

text \<open>
  \<^verbatim>\<open>_infer_sipahi_4p\<close>: the first eligible player other than the guessed Chor;
  \<^verbatim>\<open>[...][0]\<close> raises \<^verbatim>\<open>IndexError\<close> when there is none.
\<close>

definition infer_sipahi_4p :: "string list \<Rightarrow> roles \<Rightarrow> string \<Rightarrow> error + string" where
  "infer_sipahi_4p player_names role_assignment guessed_chor =
     ebind (eligible_hidden_players player_names role_assignment) (\<lambda>eligible.
       first (filter (\<lambda>p. p \<noteq> guessed_chor) eligible))"

section \<open>The store\<close>

text \<open>
  The rows of the three tables. A room row is a JSON object: \<open>update_room\<close> merges an
  arbitrary dictionary of columns into it, and \<open>main\<close> reads it with \<^verbatim>\<open>room.get\<close>. Player
  and score rows have the four columns with which the code inserts them.
\<close>

datatype jvalue = JNull | JInt int | JStr string | JRoles roles | JList "string list"

type_synonym room = "string \<rightharpoonup> jvalue"

record player =
  p_room_code :: string
  player_name :: string
  p_role :: "string option"
  p_total_score :: int

record score_row =
  s_room_code :: string
  s_player_name :: string
  s_round_number :: int
  s_points :: int

record store =
  rooms :: "room list"
  players :: "player list"
  round_scores :: "score_row list"

text \<open>\<^verbatim>\<open>room.get(key)\<close>: an absent column reads as \<^verbatim>\<open>None\<close>.\<close>

definition room_get :: "room \<Rightarrow> string \<Rightarrow> jvalue" where
  "room_get r key = dict_get r key JNull"

text \<open>Python truthiness, for \<^verbatim>\<open>x or default\<close>.\<close>

fun truthy :: "jvalue \<Rightarrow> bool" where
  "truthy JNull = False"
| "truthy (JInt n) = (n \<noteq> 0)"
| "truthy (JStr s) = (s \<noteq> [])"
| "truthy (JRoles m) = (m \<noteq> Map.empty)"
| "truthy (JList xs) = (xs \<noteq> [])"

text \<open>
  \<^verbatim>\<open>int(room.get(key, default))\<close>. The default applies to an absent column only; a null
  column gives \<^verbatim>\<open>int(None)\<close>, a \<^verbatim>\<open>TypeError\<close>. The integer columns hold integers: any other
  value there is rendered as \<^verbatim>\<open>TypeError\<close> too.
\<close>

definition get_int :: "room \<Rightarrow> string \<Rightarrow> int \<Rightarrow> error + int" where
  "get_int r key dflt =
     (case r key of None \<Rightarrow> Inr dflt | Some (JInt n) \<Rightarrow> Inr n | Some _ \<Rightarrow> Inl TypeError)"

text \<open>
  \<^verbatim>\<open>room.get("current_roles") or {}\<close>, used as a dictionary afterwards. The column holds a
  JSON object or null; another truthy value is rendered as \<^verbatim>\<open>TypeError\<close> at this read.
\<close>

definition get_roles :: "room \<Rightarrow> error + roles" where
  "get_roles r =
     (case room_get r ''current_roles'' of
        JRoles m \<Rightarrow> Inr m
      | v \<Rightarrow> if truthy v then Inl TypeError else Inr Map.empty)"

text \<open>
  A stored guess compared with a player name: only a string can be equal to a name.
\<close>

fun as_name :: "jvalue \<Rightarrow> string option" where
  "as_name (JStr s) = Some s"
| "as_name _ = None"

fun name_json :: "string option \<Rightarrow> jvalue" where
  "name_json None = JNull"
| "name_json (Some s) = JStr s"

definition fetch_room :: "string \<Rightarrow> store \<Rightarrow> room option" where
  "fetch_room room_code st =
     (case filter (\<lambda>r. r ''room_code'' = Some (JStr room_code)) (rooms st) of
        [] \<Rightarrow> None | r # _ \<Rightarrow> Some r)"

definition fetch_players :: "string \<Rightarrow> store \<Rightarrow> player list" where
  "fetch_players room_code st =
     sort_key player_name (filter (\<lambda>p. p_room_code p = room_code) (players st))"

definition fetch_round_scores :: "string \<Rightarrow> store \<Rightarrow> score_row list" where
  "fetch_round_scores room_code st =
     sort_key s_round_number (filter (\<lambda>r. s_room_code r = room_code) (round_scores st))"

text \<open>
  The store's \<^verbatim>\<open>table("rooms").update(updates).eq("room_code", room_code)\<close>: every row
  with that room code gets the columns of the dictionary overwritten; nothing else is
  compared. The rows it returns are the updated ones.
\<close>

definition update_rows :: "string \<Rightarrow> (string \<rightharpoonup> jvalue) \<Rightarrow> store \<Rightarrow> store" where
  "update_rows code updates st =
     st\<lparr>rooms := map (\<lambda>r. if r ''room_code'' = Some (JStr code) then r ++ updates else r)
                     (rooms st)\<rparr>"

definition updated_rows :: "string \<Rightarrow> (string \<rightharpoonup> jvalue) \<Rightarrow> store \<Rightarrow> room list" where
  "updated_rows code updates st =
     map (\<lambda>r. r ++ updates) (filter (\<lambda>r. r ''room_code'' = Some (JStr code)) (rooms st))"

text \<open>
  \<open>update_room\<close>: the assertion on the room code, the removal of the \<^verbatim>\<open>admin_name\<close> key,
  then the update. The result is the first updated row (\<^verbatim>\<open>{}\<close> when no row matched) with
  the new store.
\<close>

definition update_room :: "string \<Rightarrow> (string \<rightharpoonup> jvalue) \<Rightarrow> store \<Rightarrow> error + (room \<times> store)" where
  "update_room code updates st =
     (if code = [] then Inl (AssertionError ''room_code required for update'')
      else
        let updates = (if ''admin_name'' \<in> dom updates
                       then (\<lambda>k. if k \<noteq> ''admin_name'' then updates k else None)
                       else updates);
            data = updated_rows code updates st
        in Inr (case data of [] \<Rightarrow> Map.empty | r # _ \<Rightarrow> r, update_rows code updates st))"

definition insert_round_scores :: "score_row list \<Rightarrow> store \<Rightarrow> store" where
  "insert_round_scores rows st =
     (if rows = [] then st else st\<lparr>round_scores := round_scores st @ rows\<rparr>)"

section \<open>The room view of \<open>main\<close>\<close>

text \<open>
  One run of the script for a session that is in a room (the branch
  \<^verbatim>\<open>if st.session_state.room_code:\<close> of \<open>main\<close>). The session state is local to a client;
  the widgets a user can operate in one run are the buttons below and the three select
  boxes. Calls that only draw (titles, the scoreboard, the round summary) change nothing
  and are left out.
\<close>

record room_snapshot =
  sig_current_round :: jvalue
  sig_current_phase :: jvalue
  sig_mantri_chor_guess :: jvalue
  sig_mantri_sipahi_guess :: jvalue
  sig_raja_rani_guess :: jvalue
  sig_lobby_log_len :: nat

record session =
  view :: string
  room_code :: "string option"
  is_admin :: bool
  session_player_name :: string
  last_room_snapshot :: "room_snapshot option"

datatype button =
    StartGame | ContinueMantriReveal | ContinueMantriGuess | SubmitGuess
  | SubmitRajaGuess | NextRound | FinishGame | LeaveRoom

text \<open>
  What the user did to cause this run: the button pressed, if any, and the positions
  selected in the select boxes for Chor, Sipahi and Rani.
\<close>

record ui =
  clicked :: "button option"
  chor_index :: nat
  sipahi_index :: nat
  rani_index :: nat

text \<open>
  How a run ends: \<open>Returned\<close> is a plain \<^verbatim>\<open>return\<close>, \<open>Rerun\<close> is \<^verbatim>\<open>st.rerun()\<close> after an
  action, \<open>Waiting\<close> is the polling branch (sleep, then rerun), \<open>Shown msg\<close> is
  \<^verbatim>\<open>st.error(msg)\<close> followed by \<^verbatim>\<open>return\<close>, \<open>Raised e\<close> is an uncaught exception, and
  \<open>OtherView\<close> stands for the views outside a room (home, host set-up, join), which are
  not modelled.
\<close>

datatype outcome = Returned | Rerun | Waiting | Shown string | Raised error | OtherView

definition PHASE_RAJA_REVEAL :: string where "PHASE_RAJA_REVEAL = ''RAJA_REVEAL''"
definition PHASE_MANTRI_REVEAL :: string where "PHASE_MANTRI_REVEAL = ''MANTRI_REVEAL''"
definition PHASE_MANTRI_GUESS :: string where "PHASE_MANTRI_GUESS = ''MANTRI_GUESS''"
definition PHASE_RAJA_GUESS :: string where "PHASE_RAJA_GUESS = ''RAJA_GUESS''"
definition PHASE_ROUND_RESULT :: string where "PHASE_ROUND_RESULT = ''ROUND_RESULT''"
definition PHASE_GAME_OVER :: string where "PHASE_GAME_OVER = ''GAME_OVER''"

definition room_signature :: "room \<Rightarrow> room_snapshot" where
  "room_signature r =
     \<lparr>sig_current_round = room_get r ''current_round'',
      sig_current_phase = room_get r ''current_phase'',
      sig_mantri_chor_guess = room_get r ''mantri_chor_guess'',
      sig_mantri_sipahi_guess = room_get r ''mantri_sipahi_guess'',
      sig_raja_rani_guess = room_get r ''raja_rani_guess'',
      sig_lobby_log_len = (case room_get r ''lobby_log'' of JList xs \<Rightarrow> length xs | _ \<Rightarrow> 0)\<rparr>"

text \<open>
  \<open>poll_for_changes_if_waiting\<close> stores the snapshot in the session; when waiting it then
  sleeps and reruns, which ends the run.
\<close>

definition poll_for_changes_if_waiting :: "room \<Rightarrow> session \<Rightarrow> session" where
  "poll_for_changes_if_waiting r sess = sess\<lparr>last_room_snapshot := Some (room_signature r)\<rparr>"

text \<open>
  \<^verbatim>\<open>st.selectbox\<close>: the option at the selected position, the first option when the
  position is not one of the current options, \<^verbatim>\<open>None\<close> when there are no options.
\<close>

definition selectbox :: "'a list \<Rightarrow> nat \<Rightarrow> 'a option" where
  "selectbox options i =
     (if options = [] then None
      else if i < length options then Some (options ! i) else Some (options ! 0))"

text \<open>The values read from the room row at the start of the run.\<close>

record locals =
  l_code :: string
  l_room :: room
  l_players :: "player list"
  l_num_players :: int
  l_num_rounds :: int
  l_current_round :: int
  l_roles_map :: roles
  l_this_player_name :: string

text \<open>The nested helper \<open>player_with_role\<close> of \<open>main\<close>: the first player with the role.\<close>

definition main_player_with_role :: "locals \<Rightarrow> string \<Rightarrow> player option" where
  "main_player_with_role l r =
     find (\<lambda>p. l_roles_map l (player_name p) = Some r) (l_players l)"

text \<open>The rows appended for a round: one per player, \<^verbatim>\<open>int(pts.get(pname, 0))\<close> points.\<close>

definition score_rows :: "locals \<Rightarrow> points \<Rightarrow> score_row list" where
  "score_rows l pts =
     map (\<lambda>p. \<lparr>s_room_code = l_code l, s_player_name = player_name p,
               s_round_number = l_current_round l,
               s_points = dict_get pts (player_name p) 0\<rparr>) (l_players l)"

text \<open>
  An action of the room view: \<open>update_room\<close> on the current store, then \<^verbatim>\<open>st.rerun()\<close>; the
  assertion of \<open>update_room\<close> is an uncaught exception of the run.
\<close>

definition update_and_rerun ::
  "string \<Rightarrow> (string \<rightharpoonup> jvalue) \<Rightarrow> session \<Rightarrow> store \<Rightarrow> outcome \<times> session \<times> store" where
  "update_and_rerun code updates sess st =
     (case update_room code updates st of
        Inl e \<Rightarrow> (Raised e, sess, st)
      | Inr (_, st') \<Rightarrow> (Rerun, sess, st'))"

definition new_round_updates :: "int \<Rightarrow> roles \<Rightarrow> (string \<rightharpoonup> jvalue)" where
  "new_round_updates n rs =
     [''current_round'' \<mapsto> JInt n,
      ''current_phase'' \<mapsto> JStr PHASE_RAJA_REVEAL,
      ''current_roles'' \<mapsto> JRoles rs,
      ''mantri_chor_guess'' \<mapsto> JNull,
      ''mantri_sipahi_guess'' \<mapsto> JNull,
      ''raja_rani_guess'' \<mapsto> JNull]"

definition phase_lobby ::
  "(nat \<Rightarrow> nat) \<Rightarrow> ui \<Rightarrow> locals \<Rightarrow> session \<Rightarrow> store \<Rightarrow> outcome \<times> session \<times> store" where
  "phase_lobby rnd u l sess st =
     (if is_admin sess then
        if int (length (l_players l)) = l_num_players l \<and> clicked u = Some StartGame then
          let player_names = map player_name (l_players l);
              rs = compute_roles_for_round rnd player_names (l_num_players l)
          in update_and_rerun (l_code l) (new_round_updates 1 rs) sess st
        else (Returned, sess, st)
      else (Waiting, poll_for_changes_if_waiting (l_room l) sess, st))"

definition phase_raja_reveal ::
  "ui \<Rightarrow> locals \<Rightarrow> session \<Rightarrow> store \<Rightarrow> outcome \<times> session \<times> store" where
  "phase_raja_reveal u l sess st =
     (if is_admin sess then
        if clicked u = Some ContinueMantriReveal then
          update_and_rerun (l_code l) [''current_phase'' \<mapsto> JStr PHASE_MANTRI_REVEAL] sess st
        else (Returned, sess, st)
      else (Waiting, poll_for_changes_if_waiting (l_room l) sess, st))"

definition phase_mantri_reveal ::
  "ui \<Rightarrow> locals \<Rightarrow> session \<Rightarrow> store \<Rightarrow> outcome \<times> session \<times> store" where
  "phase_mantri_reveal u l sess st =
     (if is_admin sess then
        if clicked u = Some ContinueMantriGuess then
          update_and_rerun (l_code l) [''current_phase'' \<mapsto> JStr PHASE_MANTRI_GUESS] sess st
        else (Returned, sess, st)
      else (Waiting, poll_for_changes_if_waiting (l_room l) sess, st))"

text \<open>
  The Mantri guess. In a room of five the Sipahi is selected among the hidden players other
  than the selected Chor; otherwise it is the first hidden player other than the selected
  Chor (\<^verbatim>\<open>next(..., None)\<close>), and the run stops with a message when there is none.
\<close>

definition hidden_names :: "locals \<Rightarrow> string list" where
  "hidden_names l =
     map player_name
       (filter (\<lambda>p. l_roles_map l (player_name p) \<notin> {Some ''Raja'', Some ''Mantri''})
          (l_players l))"

definition sipahi_choice :: "ui \<Rightarrow> locals \<Rightarrow> string option \<Rightarrow> string option" where
  "sipahi_choice u l chor_choice_name =
     (if l_num_players l = 5 then
        selectbox (filter (\<lambda>n. Some n \<noteq> chor_choice_name) (hidden_names l)) (sipahi_index u)
      else find (\<lambda>n. Some n \<noteq> chor_choice_name) (hidden_names l))"

definition phase_mantri_guess ::
  "ui \<Rightarrow> locals \<Rightarrow> session \<Rightarrow> store \<Rightarrow> outcome \<times> session \<times> store" where
  "phase_mantri_guess u l sess st =
     (case main_player_with_role l ''Mantri'' of
        None \<Rightarrow> (Waiting, poll_for_changes_if_waiting (l_room l) sess, st)
      | Some mantri \<Rightarrow>
          if l_this_player_name l \<noteq> player_name mantri
          then (Waiting, poll_for_changes_if_waiting (l_room l) sess, st)
          else
            let chor_choice_name = selectbox (hidden_names l) (chor_index u);
                sipahi_choice_name = sipahi_choice u l chor_choice_name
            in if l_num_players l \<noteq> 5 \<and> sipahi_choice_name = None
               then (Shown ''Unable to determine Sipahi choice.'', sess, st)
               else if clicked u = Some SubmitGuess then
                 let update = [''mantri_chor_guess'' \<mapsto> name_json chor_choice_name,
                               ''mantri_sipahi_guess'' \<mapsto> name_json sipahi_choice_name]
                 in if l_num_players l = 4 then
                      (case calculate_points_4_players (map player_name (l_players l))
                              (l_roles_map l) (chor_choice_name, sipahi_choice_name) of
                         Inl e \<Rightarrow> (Raised e, sess, st)
                       | Inr pts \<Rightarrow>
                           update_and_rerun (l_code l)
                             (update(''current_phase'' \<mapsto> JStr PHASE_ROUND_RESULT)) sess
                             (insert_round_scores (score_rows l pts) st))
                    else update_and_rerun (l_code l)
                           (update(''current_phase'' \<mapsto> JStr PHASE_RAJA_GUESS)) sess st
               else (Returned, sess, st))"

definition phase_raja_guess ::
  "ui \<Rightarrow> locals \<Rightarrow> session \<Rightarrow> store \<Rightarrow> outcome \<times> session \<times> store" where
  "phase_raja_guess u l sess st =
     (case main_player_with_role l ''Raja'' of
        None \<Rightarrow> (Shown ''Raja not found for this round.'', sess, st)
      | Some raja \<Rightarrow>
          if l_this_player_name l \<noteq> player_name raja
          then (Waiting, poll_for_changes_if_waiting (l_room l) sess, st)
          else
            let candidate_names_list =
                  filter (\<lambda>n. n \<noteq> player_name raja) (map player_name (l_players l));
                rani_choice_name = selectbox candidate_names_list (rani_index u)
            in if clicked u = Some SubmitRajaGuess then
                 (case calculate_points_5_players (map player_name (l_players l))
                         (l_roles_map l)
                         (as_name (room_get (l_room l) ''mantri_chor_guess''),
                          as_name (room_get (l_room l) ''mantri_sipahi_guess''))
                         rani_choice_name of
                    Inl e \<Rightarrow> (Raised e, sess, st)
                  | Inr pts \<Rightarrow>
                      update_and_rerun (l_code l)
                        [''raja_rani_guess'' \<mapsto> name_json rani_choice_name,
                         ''current_phase'' \<mapsto> JStr PHASE_ROUND_RESULT] sess
                        (insert_round_scores (score_rows l pts) st))
               else (Returned, sess, st))"

definition phase_round_result ::
  "(nat \<Rightarrow> nat) \<Rightarrow> ui \<Rightarrow> locals \<Rightarrow> session \<Rightarrow> store \<Rightarrow> outcome \<times> session \<times> store" where
  "phase_round_result rnd u l sess st =
     (if is_admin sess then
        if l_current_round l < l_num_rounds l then
          if clicked u = Some NextRound then
            let player_names = map player_name (l_players l);
                rs = compute_roles_for_round rnd player_names (l_num_players l)
            in update_and_rerun (l_code l) (new_round_updates (l_current_round l + 1) rs) sess st
          else (Returned, sess, st)
        else
          if clicked u = Some FinishGame then
            update_and_rerun (l_code l) [''current_phase'' \<mapsto> JStr PHASE_GAME_OVER] sess st
          else (Returned, sess, st)
      else (Waiting, poll_for_changes_if_waiting (l_room l) sess, st))"

definition phase_game_over ::
  "ui \<Rightarrow> locals \<Rightarrow> session \<Rightarrow> store \<Rightarrow> outcome \<times> session \<times> store" where
  "phase_game_over u l sess st =
     (if clicked u = Some LeaveRoom then
        (Rerun, sess\<lparr>view := ''home'', room_code := None, session_player_name := [],
                     is_admin := False\<rparr>, st)
      else (Returned, sess, st))"

text \<open>
  The dispatch on the phase of the fetched room, in the order of the source; a phase that is
  none of the six falls through to the end of \<open>main\<close>.
\<close>

definition dispatch ::
  "(nat \<Rightarrow> nat) \<Rightarrow> ui \<Rightarrow> locals \<Rightarrow> jvalue \<Rightarrow> session \<Rightarrow> store \<Rightarrow> outcome \<times> session \<times> store" where
  "dispatch rnd u l phase sess st =
     (if phase = JNull then phase_lobby rnd u l sess st
      else if phase = JStr PHASE_RAJA_REVEAL then phase_raja_reveal u l sess st
      else if phase = JStr PHASE_MANTRI_REVEAL then phase_mantri_reveal u l sess st
      else if phase = JStr PHASE_MANTRI_GUESS then phase_mantri_guess u l sess st
      else if phase = JStr PHASE_RAJA_GUESS then phase_raja_guess u l sess st
      else if phase = JStr PHASE_ROUND_RESULT then phase_round_result rnd u l sess st
      else if phase = JStr PHASE_GAME_OVER then phase_game_over u l sess st
      else (Returned, sess, st))"

text \<open>
  The start of the room view: the values read from the fetched room row and players, in
  the order of the source, with the three ways this part ends the run early.
\<close>

definition read_locals :: "string \<Rightarrow> room \<Rightarrow> player list \<Rightarrow> session \<Rightarrow> outcome + locals" where
  "read_locals code r fetched_players sess =
     (if fetched_players = [] then Inl (Shown ''No players found in this room.'')
      else
        case get_int r ''num_players'' (int (length fetched_players)) of
          Inl e \<Rightarrow> Inl (Raised e)
        | Inr num_players \<Rightarrow>
        case get_int r ''num_rounds'' 1 of
          Inl e \<Rightarrow> Inl (Raised e)
        | Inr num_rounds \<Rightarrow>
        case get_int r ''current_round'' 1 of
          Inl e \<Rightarrow> Inl (Raised e)
        | Inr current_round \<Rightarrow>
        case get_roles r of
          Inl e \<Rightarrow> Inl (Raised e)
        | Inr roles_map \<Rightarrow>
        case find (\<lambda>p. player_name p = session_player_name sess) fetched_players of
          None \<Rightarrow> Inl (Shown ''Your player row was not found in this room.'')
        | Some this_player \<Rightarrow>
            Inr \<lparr>l_code = code, l_room = r, l_players = fetched_players,
                 l_num_players = num_players, l_num_rounds = num_rounds,
                 l_current_round = current_round, l_roles_map = roles_map,
                 l_this_player_name = player_name this_player\<rparr>)"

text \<open>
  The room view on what the run fetched (the row of room \<open>code\<close> and its players, read once
  at the start), acting on the store \<open>st\<close>.
\<close>

definition room_view ::
  "(nat \<Rightarrow> nat) \<Rightarrow> ui \<Rightarrow> string \<Rightarrow> room option \<Rightarrow> player list \<Rightarrow> session \<Rightarrow> store
     \<Rightarrow> outcome \<times> session \<times> store" where
  "room_view rnd u code fetched_room fetched_players sess st =
     (case fetched_room of
        None \<Rightarrow> (Shown ''Room not found or deleted.'', sess, st)
      | Some r \<Rightarrow>
          (case read_locals code r fetched_players sess of
             Inl out \<Rightarrow> (out, sess, st)
           | Inr l \<Rightarrow> dispatch rnd u l (room_get r ''current_phase'') sess st))"

definition main_room :: "(nat \<Rightarrow> nat) \<Rightarrow> ui \<Rightarrow> session \<Rightarrow> store \<Rightarrow> outcome \<times> session \<times> store" where
  "main_room rnd u sess st =
     (case room_code sess of
        None \<Rightarrow> (OtherView, sess, st)
      | Some code \<Rightarrow>
          if code = [] then (OtherView, sess, st)
          else room_view rnd u code (fetch_room code st) (fetch_players code st) sess st)"

text \<open>
  The scenarios of the specification: four players A to D and five players A to E, with
  the roles in the order of the role lists.
\<close>

definition scenario_names4 :: "string list" where
  "scenario_names4 = [''A'', ''B'', ''C'', ''D'']"

definition scenario_roles4 :: roles where
  "scenario_roles4 = [''A'' \<mapsto> ''Raja'', ''B'' \<mapsto> ''Mantri'', ''C'' \<mapsto> ''Sipahi'', ''D'' \<mapsto> ''Chor'']"

definition scenario_names5 :: "string list" where
  "scenario_names5 = [''A'', ''B'', ''C'', ''D'', ''E'']"

definition scenario_roles5 :: roles where
  "scenario_roles5 = [''A'' \<mapsto> ''Raja'', ''B'' \<mapsto> ''Rani'', ''C'' \<mapsto> ''Mantri'',
                      ''D'' \<mapsto> ''Sipahi'', ''E'' \<mapsto> ''Chor'']"

text \<open>
  A room of the four players of the scenario, in round 1 of 2, waiting for the Mantri's
  guess, with A as admin.
\<close>

definition scenario_room :: room where
  "scenario_room =
     [''room_code'' \<mapsto> JStr ''R1'', ''num_players'' \<mapsto> JInt 4, ''num_rounds'' \<mapsto> JInt 2,
      ''current_round'' \<mapsto> JInt 1, ''current_phase'' \<mapsto> JStr ''MANTRI_GUESS'',
      ''current_roles'' \<mapsto> JRoles scenario_roles4, ''admin_name'' \<mapsto> JStr ''A'']"

definition scenario_player :: "string \<Rightarrow> player" where
  "scenario_player n = \<lparr>p_room_code = ''R1'', player_name = n, p_role = None, p_total_score = 0\<rparr>"

definition scenario_store :: store where
  "scenario_store =
     \<lparr>rooms = [scenario_room], players = map scenario_player scenario_names4, round_scores = []\<rparr>"

definition scenario_room_at :: "string \<Rightarrow> int \<Rightarrow> room" where
  "scenario_room_at phase n =
     scenario_room(''current_phase'' \<mapsto> JStr phase, ''current_round'' \<mapsto> JInt n)"

definition scenario_store_at :: "string \<Rightarrow> int \<Rightarrow> store" where
  "scenario_store_at phase n = scenario_store\<lparr>rooms := [scenario_room_at phase n]\<rparr>"

definition scenario_locals :: "string \<Rightarrow> int \<Rightarrow> string \<Rightarrow> locals" where
  "scenario_locals phase n me =
     \<lparr>l_code = ''R1'', l_room = scenario_room_at phase n,
      l_players = map scenario_player scenario_names4, l_num_players = 4, l_num_rounds = 2,
      l_current_round = n, l_roles_map = scenario_roles4, l_this_player_name = me\<rparr>"

definition click :: "button \<Rightarrow> ui" where
  "click b = \<lparr>clicked = Some b, chor_index = 0, sipahi_index = 0, rani_index = 0\<rparr>"

definition scenario_session :: "string \<Rightarrow> session" where
  "scenario_session n =
     \<lparr>view = ''room'', room_code = Some ''R1'', is_admin = (n = ''A''),
      session_player_name = n, last_room_snapshot = None\<rparr>"

text \<open>A random source whose every draw is 0, for the concrete runs below.\<close>

definition zero_draws :: "nat \<Rightarrow> nat" where
  "zero_draws i = 0"

text \<open>The \<^verbatim>\<open>admin_name\<close> column of every room row, in table order.\<close>

definition admin_names :: "store \<Rightarrow> jvalue option list" where
  "admin_names st = map (\<lambda>r. r ''admin_name'') (rooms st)"

text \<open>A column of the row that \<open>fetch_room\<close> returns, \<^verbatim>\<open>None\<close> when there is no row.\<close>

definition room_column :: "string \<Rightarrow> string \<Rightarrow> store \<Rightarrow> jvalue" where
  "room_column code key st = (case fetch_room code st of None \<Rightarrow> JNull | Some r \<Rightarrow> room_get r key)"

text \<open>
  The candidates for the inferred Sipahi: the hidden players other than the chosen Chor, in
  player order, as \<open>infer_sipahi_4p\<close> and the room view compute them.
\<close>

definition sipahi_candidates :: "string list \<Rightarrow> roles \<Rightarrow> string \<Rightarrow> string list" where
  "sipahi_candidates player_names role_assignment guessed_chor =
     filter (\<lambda>p. p \<noteq> guessed_chor)
       (filter (\<lambda>p. role_assignment p \<notin> {Some ''Raja'', Some ''Mantri''}) player_names)"

definition view_candidates :: "locals \<Rightarrow> string option \<Rightarrow> string list" where
  "view_candidates l chor_choice_name =
     filter (\<lambda>n. Some n \<noteq> chor_choice_name) (hidden_names l)"

text \<open>
  Whether the session's player is the one the room view finds for a role.
\<close>

definition session_holds :: "locals \<Rightarrow> session \<Rightarrow> string \<Rightarrow> bool" where
  "session_holds l sess r =
     (case main_player_with_role l r of
        None \<Rightarrow> False
      | Some p \<Rightarrow> player_name p = session_player_name sess)"

text \<open>
  The Mantri B submits the guess Chor = D (the second hidden player) in the scenario room.
  \<open>decided_store\<close> is the store after that run; \<open>stale_run\<close> is a second run of the same
  submission that fetched the room before the first run wrote, and acts after it.
\<close>

definition guess_ui :: ui where
  "guess_ui = \<lparr>clicked = Some SubmitGuess, chor_index = 1, sipahi_index = 0, rani_index = 0\<rparr>"



definition score :: "string \<Rightarrow> int \<Rightarrow> score_row" where
  "score n pts = \<lparr>s_room_code = ''R1'', s_player_name = n, s_round_number = 1, s_points = pts\<rparr>"

text \<open>
  A room configured for four players that holds five player rows and five roles (an
  integrity fault): Mantri C then has three hidden players to choose from.
\<close>

definition faulty_store :: store where
  "faulty_store =
     \<lparr>rooms = [scenario_room(''current_roles'' \<mapsto> JRoles scenario_roles5)],
      players = map scenario_player scenario_names5, round_scores = []\<rparr>"

definition faulty_ui :: ui where
  "faulty_ui = \<lparr>clicked = Some SubmitGuess, chor_index = 2, sipahi_index = 0, rani_index = 0\<rparr>"


text \<open>
  What the room view reads from the faulty room for the Mantri C, and the columns C's
  submission writes there.
\<close>

definition faulty_locals :: locals where
  "faulty_locals =
     \<lparr>l_code = ''R1'', l_room = scenario_room(''current_roles'' \<mapsto> JRoles scenario_roles5),
      l_players = map scenario_player scenario_names5, l_num_players = 4, l_num_rounds = 2,
      l_current_round = 1, l_roles_map = scenario_roles5, l_this_player_name = ''C''\<rparr>"

definition faulty_updates :: "string \<rightharpoonup> jvalue" where
  "faulty_updates = [''mantri_chor_guess'' \<mapsto> JStr ''E'', ''mantri_sipahi_guess'' \<mapsto> JStr ''B'',
                     ''current_phase'' \<mapsto> JStr PHASE_ROUND_RESULT]"

text \<open>The scenario as the Mantri B reads it, with only A and B among the players.\<close>

definition short_locals :: locals where
  "short_locals = (scenario_locals PHASE_MANTRI_GUESS 1 ''B'')
                    \<lparr>l_players := map scenario_player [''A'', ''B'']\<rparr>"

section \<open>Lemmas on role lookup\<close>

lemma filter_is_single:
  "distinct xs \<Longrightarrow> x \<in> set xs \<Longrightarrow> filter ((=) x) xs = [x]"
proof (induction xs)
  case Nil
  then show ?case by simp
next
  case (Cons a xs)
  show ?case
  proof (cases "x = a")
    case True
    with Cons.prems have "x \<notin> set xs" by simp
    then have "filter ((=) x) xs = []" by (auto simp: filter_empty_conv)
    with True show ?thesis by simp
  next
    case False
    with Cons show ?thesis by simp
  qed
qed

lemma filter_single:
  assumes "distinct xs" "x \<in> set xs" "\<forall>y \<in> set xs. P y \<longleftrightarrow> x = y"
  shows "filter P xs = [x]"
proof -
  have "filter P xs = filter ((=) x) xs"
    using assms(3) by (intro filter_cong) simp_all
  with assms(1,2) show ?thesis by (simp add: filter_is_single)
qed

lemma role_bijection_unique:
  assumes "role_bijection ps ra R" "ra x = Some r" "ra y = Some r"
  shows "x = y"
proof -
  from assms have "x \<in> set ps" "y \<in> set ps"
    by (auto simp: role_bijection_def)
  moreover from assms have "inj_on (\<lambda>p. the (ra p)) (set ps)"
    by (simp add: role_bijection_def bij_betw_def)
  ultimately have "the (ra x) = the (ra y) \<longrightarrow> x = y"
    by (simp add: inj_on_def)
  with assms(2,3) show ?thesis by simp
qed

lemma select_role_total:
  "set ps \<subseteq> dom ra \<Longrightarrow> select_role ps ra role = Inr (filter (\<lambda>p. ra p = Some role) ps)"
  by (induction ps) (auto simp: ebind_def)

lemma player_with_role_bijection:
  assumes "role_bijection ps ra R" "ra x = Some r"
  shows "player_with_role ps ra r = Inr x"
proof -
  from assms have d: "distinct ps" and s: "set ps \<subseteq> dom ra" and x: "x \<in> set ps"
    by (auto simp: role_bijection_def)
  have "\<forall>y \<in> set ps. ra y = Some r \<longleftrightarrow> x = y"
    using role_bijection_unique [OF assms(1) assms(2)] assms(2) by blast
  with d x have "filter (\<lambda>p. ra p = Some r) ps = [x]"
    by (rule filter_single)
  then show ?thesis
    by (simp add: player_with_role_def select_role_total [OF s] ebind_def first_def)
qed

lemma fold_init_points:
  "fold (\<lambda>player pts. pts(player \<mapsto> 0::int)) ps m p = (if p \<in> set ps then Some 0 else m p)"
  by (induction ps arbitrary: m) auto

lemma init_points_apply:
  "init_points ps p = (if p \<in> set ps then Some 0 else None)"
  by (simp add: init_points_def fold_init_points)

lemma role_bijection_holder:
  assumes "role_bijection ps ra R" "r \<in> R"
  shows "\<exists>p \<in> set ps. ra p = Some r"
proof -
  from assms have "r \<in> (\<lambda>p. the (ra p)) ` set ps"
    by (simp add: role_bijection_def bij_betw_def)
  then obtain p where "p \<in> set ps" "r = the (ra p)" by auto
  moreover from this assms have "p \<in> dom ra" by (simp add: role_bijection_def)
  ultimately show ?thesis by auto
qed

lemma role_bijection_members:
  assumes "role_bijection ps ra R" "p \<in> set ps"
  shows "\<exists>r \<in> R. ra p = Some r"
proof -
  from assms have "the (ra p) \<in> R" "p \<in> dom ra"
    by (auto simp: role_bijection_def bij_betw_def)
  then show ?thesis by auto
qed

lemma calculate_points_4_players_result:
  assumes rb: "role_bijection player_names ra R"
    and h: "ra raja = Some ''Raja''" "ra mantri = Some ''Mantri''"
           "ra sipahi = Some ''Sipahi''" "ra chor = Some ''Chor''"
  shows "calculate_points_4_players player_names ra (guessed_chor, guessed_sipahi) =
           Inr (if guessed_chor = Some chor \<and> guessed_sipahi = Some sipahi
                then (init_points player_names)
                       (mantri \<mapsto> 500, chor \<mapsto> 0, raja \<mapsto> 1000, sipahi \<mapsto> 250)
                else (init_points player_names)
                       (mantri \<mapsto> 0, chor \<mapsto> 500, raja \<mapsto> 1000, sipahi \<mapsto> 250))"
  by (simp add: calculate_points_4_players_def ebind_def Let_def
      player_with_role_bijection [OF rb h(1)] player_with_role_bijection [OF rb h(2)]
      player_with_role_bijection [OF rb h(3)] player_with_role_bijection [OF rb h(4)])

lemma calculate_points_5_players_result:
  assumes rb: "role_bijection player_names ra R"
    and h: "ra raja = Some ''Raja''" "ra rani = Some ''Rani''" "ra mantri = Some ''Mantri''"
           "ra sipahi = Some ''Sipahi''" "ra chor = Some ''Chor''"
  shows "calculate_points_5_players player_names ra (guessed_chor, guessed_sipahi) guessed_rani =
           Inr (let mc = (guessed_chor = Some chor \<and> guessed_sipahi = Some sipahi);
                    p1 = (init_points player_names)
                           (mantri \<mapsto> (if mc then 500 else 0), chor \<mapsto> (if mc then 0 else 500),
                            sipahi \<mapsto> 250)
                in if guessed_rani = Some rani
                   then p1(raja \<mapsto> 1000, rani \<mapsto> 750)
                   else p1(raja \<mapsto> 500, chor \<mapsto> (if mc then 0 else 500) + 500, rani \<mapsto> 750))"
proof -
  have ne: "chor \<noteq> sipahi" "chor \<noteq> raja" using h by auto
  show ?thesis
    using ne
    by (simp add: calculate_points_5_players_def ebind_def Let_def
      player_with_role_bijection [OF rb h(1)] player_with_role_bijection [OF rb h(2)]
      player_with_role_bijection [OF rb h(3)] player_with_role_bijection [OF rb h(4)]
      player_with_role_bijection [OF rb h(5)])
qed

lemma players_are_holders4:
  assumes rb: "role_bijection player_names ra roles4"
    and h: "ra raja = Some ''Raja''" "ra mantri = Some ''Mantri''"
           "ra sipahi = Some ''Sipahi''" "ra chor = Some ''Chor''"
  shows "set player_names = {raja, mantri, sipahi, chor}"
proof
  show "set player_names \<subseteq> {raja, mantri, sipahi, chor}"
  proof
    fix p assume "p \<in> set player_names"
    from role_bijection_members [OF rb this] obtain r where r: "r \<in> roles4" "ra p = Some r"
      by blast
    from r(1) consider "r = ''Raja''" | "r = ''Mantri''" | "r = ''Sipahi''" | "r = ''Chor''"
      unfolding roles4_def by blast
    then have "p = raja \<or> p = mantri \<or> p = sipahi \<or> p = chor"
    proof cases
      case 1
      with r(2) have "p = raja" by (intro role_bijection_unique [OF rb _ h(1)]) simp
      then show ?thesis by simp
    next
      case 2
      with r(2) have "p = mantri" by (intro role_bijection_unique [OF rb _ h(2)]) simp
      then show ?thesis by simp
    next
      case 3
      with r(2) have "p = sipahi" by (intro role_bijection_unique [OF rb _ h(3)]) simp
      then show ?thesis by simp
    next
      case 4
      with r(2) have "p = chor" by (intro role_bijection_unique [OF rb _ h(4)]) simp
      then show ?thesis by simp
    qed
    then show "p \<in> {raja, mantri, sipahi, chor}" by blast
  qed
  have "{raja, mantri, sipahi, chor} \<subseteq> dom ra" using h by blast
  then show "{raja, mantri, sipahi, chor} \<subseteq> set player_names"
    using rb by (simp add: role_bijection_def)
qed

lemma players_are_holders5:
  assumes rb: "role_bijection player_names ra roles5"
    and h: "ra raja = Some ''Raja''" "ra mantri = Some ''Mantri''"
           "ra sipahi = Some ''Sipahi''" "ra chor = Some ''Chor''" "ra rani = Some ''Rani''"
  shows "set player_names = {raja, mantri, sipahi, chor, rani}"
proof
  show "set player_names \<subseteq> {raja, mantri, sipahi, chor, rani}"
  proof
    fix p assume "p \<in> set player_names"
    from role_bijection_members [OF rb this] obtain r where r: "r \<in> roles5" "ra p = Some r"
      by blast
    from r(1) consider "r = ''Raja''" | "r = ''Mantri''" | "r = ''Sipahi''" | "r = ''Chor''"
      | "r = ''Rani''"
      unfolding roles5_def by blast
    then have "p = raja \<or> p = mantri \<or> p = sipahi \<or> p = chor \<or> p = rani"
    proof cases
      case 1
      with r(2) have "p = raja" by (intro role_bijection_unique [OF rb _ h(1)]) simp
      then show ?thesis by simp
    next
      case 2
      with r(2) have "p = mantri" by (intro role_bijection_unique [OF rb _ h(2)]) simp
      then show ?thesis by simp
    next
      case 3
      with r(2) have "p = sipahi" by (intro role_bijection_unique [OF rb _ h(3)]) simp
      then show ?thesis by simp
    next
      case 4
      with r(2) have "p = chor" by (intro role_bijection_unique [OF rb _ h(4)]) simp
      then show ?thesis by simp
    next
      case 5
      with r(2) have "p = rani" by (intro role_bijection_unique [OF rb _ h(5)]) simp
      then show ?thesis by simp
    qed
    then show "p \<in> {raja, mantri, sipahi, chor, rani}" by blast
  qed
  have "{raja, mantri, sipahi, chor, rani} \<subseteq> dom ra" using h by blast
  then show "{raja, mantri, sipahi, chor, rani} \<subseteq> set player_names"
    using rb by (simp add: role_bijection_def)
qed

lemma round_total_sum:
  "distinct player_names \<Longrightarrow>
     round_total pts player_names = (\<Sum>p \<in> set player_names. dict_get pts p 0)"
  by (simp add: round_total_def awarded_def sum_list_distinct_conv_sum_set)

lemma round_total_4:
  assumes rb: "role_bijection player_names ra roles4"
  shows "\<exists>pts. calculate_points_4_players player_names ra (gc, gs) = Inr pts
           \<and> round_total pts player_names = 1750"
proof -
  from role_bijection_holder [OF rb] obtain raja mantri sipahi chor
    where h: "ra raja = Some ''Raja''" "ra mantri = Some ''Mantri''"
           "ra sipahi = Some ''Sipahi''" "ra chor = Some ''Chor''"
    unfolding roles4_def by (metis insertI1 insertI2)
  have d: "raja \<noteq> mantri" "raja \<noteq> sipahi" "raja \<noteq> chor" "mantri \<noteq> sipahi" "mantri \<noteq> chor"
    "sipahi \<noteq> chor"
    using h by auto
  have dn: "distinct player_names" using rb by (simp add: role_bijection_def)
  show ?thesis
    using d
    by (simp add: calculate_points_4_players_result [OF rb h] round_total_sum [OF dn]
        players_are_holders4 [OF rb h] dict_get_def)
qed

lemma round_total_5:
  assumes rb: "role_bijection player_names ra roles5"
  shows "\<exists>pts. calculate_points_5_players player_names ra (gc, gs) gr = Inr pts
           \<and> round_total pts player_names = 2500"
proof -
  from role_bijection_holder [OF rb] obtain raja rani mantri sipahi chor
    where h: "ra raja = Some ''Raja''" "ra rani = Some ''Rani''" "ra mantri = Some ''Mantri''"
           "ra sipahi = Some ''Sipahi''" "ra chor = Some ''Chor''"
    unfolding roles5_def by (metis insertI1 insertI2)
  have d: "raja \<noteq> mantri" "raja \<noteq> sipahi" "raja \<noteq> chor" "mantri \<noteq> sipahi" "mantri \<noteq> chor"
    "sipahi \<noteq> chor" "rani \<noteq> raja" "rani \<noteq> mantri" "rani \<noteq> sipahi" "rani \<noteq> chor"
    using h by auto
  have dn: "distinct player_names" using rb by (simp add: role_bijection_def)
  show ?thesis
    using d
    by (simp add: calculate_points_5_players_result [OF rb h] round_total_sum [OF dn]
        players_are_holders5 [OF rb h(1,3,4,5,2)] dict_get_def Let_def)
qed

lemma scenario4_bijection: "role_bijection scenario_names4 scenario_roles4 roles4"
  unfolding role_bijection_def bij_betw_def
proof (intro conjI)
  show "distinct scenario_names4" by (simp add: scenario_names4_def)
  show "dom scenario_roles4 = set scenario_names4"
    by (auto simp: scenario_names4_def scenario_roles4_def)
  show "inj_on (\<lambda>p. the (scenario_roles4 p)) (set scenario_names4)"
    by (simp add: scenario_names4_def scenario_roles4_def)
  show "(\<lambda>p. the (scenario_roles4 p)) ` set scenario_names4 = roles4"
    by (auto simp: scenario_names4_def scenario_roles4_def roles4_def)
qed

lemma scenario5_bijection: "role_bijection scenario_names5 scenario_roles5 roles5"
  unfolding role_bijection_def bij_betw_def
proof (intro conjI)
  show "distinct scenario_names5" by (simp add: scenario_names5_def)
  show "dom scenario_roles5 = set scenario_names5"
    by (auto simp: scenario_names5_def scenario_roles5_def)
  show "inj_on (\<lambda>p. the (scenario_roles5 p)) (set scenario_names5)"
    by (simp add: scenario_names5_def scenario_roles5_def)
  show "(\<lambda>p. the (scenario_roles5 p)) ` set scenario_names5 = roles5"
    by (auto simp: scenario_names5_def scenario_roles5_def roles5_def)
qed

section \<open>Score calculator: the awards\<close>

text \<open>
  C1: for a role assignment that is a bijection from four distinct player names onto
  Raja, Mantri, Sipahi and Chor, and for every pair of guesses,
  \<open>calculate_points_4_players\<close> returns a result in which Raja has 1000 and Sipahi 250;
  Mantri has 500 and Chor 0 when the guessed Chor is the actual Chor and the guessed Sipahi
  is the actual Sipahi, otherwise Mantri has 0 and Chor 500; every other player has 0.
\<close>

theorem calculate_points_4_players_awards:
  assumes "role_bijection player_names ra roles4"
    and "ra raja = Some ''Raja''" and "ra mantri = Some ''Mantri''"
    and "ra sipahi = Some ''Sipahi''" and "ra chor = Some ''Chor''"
  shows "\<exists>pts. calculate_points_4_players player_names ra (guessed_chor, guessed_sipahi) = Inr pts
           \<and> pts raja = Some 1000 \<and> pts sipahi = Some 250
           \<and> pts mantri =
               Some (if guessed_chor = Some chor \<and> guessed_sipahi = Some sipahi then 500 else 0)
           \<and> pts chor =
               Some (if guessed_chor = Some chor \<and> guessed_sipahi = Some sipahi then 0 else 500)
           \<and> (\<forall>p \<in> set player_names. p \<notin> {raja, mantri, sipahi, chor} \<longrightarrow> pts p = Some 0)"
proof -
  have d: "raja \<noteq> mantri" "raja \<noteq> sipahi" "raja \<noteq> chor" "mantri \<noteq> sipahi" "mantri \<noteq> chor"
    "sipahi \<noteq> chor"
    using assms(2-5) by auto
  show ?thesis
    using d by (simp add: calculate_points_4_players_result [OF assms] init_points_apply)
qed

theorem calculate_points_4_players_awards_witness:
  "role_bijection scenario_names4 scenario_roles4 roles4 \<and>
   (\<exists>pts. calculate_points_4_players scenario_names4 scenario_roles4 (Some ''D'', Some ''C'') = Inr pts
      \<and> pts ''A'' = Some 1000 \<and> pts ''C'' = Some 250 \<and> pts ''B'' = Some 500 \<and> pts ''D'' = Some 0) \<and>
   (\<exists>pts. calculate_points_4_players scenario_names4 scenario_roles4 (Some ''C'', Some ''D'') = Inr pts
      \<and> pts ''A'' = Some 1000 \<and> pts ''C'' = Some 250 \<and> pts ''B'' = Some 0 \<and> pts ''D'' = Some 500)"
proof -
  have h: "scenario_roles4 ''A'' = Some ''Raja''" "scenario_roles4 ''B'' = Some ''Mantri''"
    "scenario_roles4 ''C'' = Some ''Sipahi''" "scenario_roles4 ''D'' = Some ''Chor''"
    by (simp_all add: scenario_roles4_def)
  show ?thesis
    using calculate_points_4_players_awards [OF scenario4_bijection h, of "Some ''D''" "Some ''C''"]
      calculate_points_4_players_awards [OF scenario4_bijection h, of "Some ''C''" "Some ''D''"]
      scenario4_bijection
    by simp blast
qed

text \<open>
  C2: for a role assignment that is a bijection from five distinct player names onto
  Raja, Rani, Mantri, Sipahi and Chor, \<open>calculate_points_5_players\<close> gives Raja 1000 when
  the Rani guess is the actual Rani, and otherwise gives Raja 500 and adds 500 to what Chor
  has from the Mantri branch (0 or 500, so up to 1000); Rani has 750 and Sipahi 250.
\<close>

theorem calculate_points_5_players_awards:
  assumes "role_bijection player_names ra roles5"
    and "ra raja = Some ''Raja''" and "ra rani = Some ''Rani''" and "ra mantri = Some ''Mantri''"
    and "ra sipahi = Some ''Sipahi''" and "ra chor = Some ''Chor''"
  shows "\<exists>pts. calculate_points_5_players player_names ra (guessed_chor, guessed_sipahi) guessed_rani
                 = Inr pts
           \<and> pts raja = Some (if guessed_rani = Some rani then 1000 else 500)
           \<and> pts chor =
               Some ((if guessed_chor = Some chor \<and> guessed_sipahi = Some sipahi then 0 else 500)
                     + (if guessed_rani = Some rani then 0 else 500))
           \<and> pts mantri =
               Some (if guessed_chor = Some chor \<and> guessed_sipahi = Some sipahi then 500 else 0)
           \<and> pts rani = Some 750 \<and> pts sipahi = Some 250"
proof -
  have d: "raja \<noteq> mantri" "raja \<noteq> sipahi" "raja \<noteq> chor" "mantri \<noteq> sipahi" "mantri \<noteq> chor"
    "sipahi \<noteq> chor" "rani \<noteq> raja" "rani \<noteq> mantri" "rani \<noteq> sipahi" "rani \<noteq> chor"
    using assms(2-6) by auto
  show ?thesis
    using d by (simp add: calculate_points_5_players_result [OF assms] Let_def)
qed

theorem calculate_points_5_players_awards_witness:
  "role_bijection scenario_names5 scenario_roles5 roles5 \<and>
   (\<exists>pts. calculate_points_5_players scenario_names5 scenario_roles5 (Some ''E'', Some ''D'') (Some ''B'')
             = Inr pts
      \<and> pts ''A'' = Some 1000 \<and> pts ''E'' = Some 0 \<and> pts ''C'' = Some 500 \<and> pts ''B'' = Some 750
      \<and> pts ''D'' = Some 250) \<and>
   (\<exists>pts. calculate_points_5_players scenario_names5 scenario_roles5 (Some ''D'', Some ''E'') (Some ''C'')
             = Inr pts
      \<and> pts ''A'' = Some 500 \<and> pts ''E'' = Some 1000 \<and> pts ''C'' = Some 0 \<and> pts ''B'' = Some 750
      \<and> pts ''D'' = Some 250)"
proof -
  have h: "scenario_roles5 ''A'' = Some ''Raja''" "scenario_roles5 ''B'' = Some ''Rani''"
    "scenario_roles5 ''C'' = Some ''Mantri''"
    "scenario_roles5 ''D'' = Some ''Sipahi''" "scenario_roles5 ''E'' = Some ''Chor''"
    by (simp_all add: scenario_roles5_def)
  show ?thesis
    using calculate_points_5_players_awards [OF scenario5_bijection h,
        of "Some ''E''" "Some ''D''" "Some ''B''"]
      calculate_points_5_players_awards [OF scenario5_bijection h,
        of "Some ''D''" "Some ''E''" "Some ''C''"]
      scenario5_bijection
    by simp
qed

text \<open>
  C3: for a bijective role assignment, the points awarded to all players sum to 1750 in
  four-player mode and to 2500 in five-player mode, whatever the Mantri guesses are (so the
  correct and the incorrect Mantri branch have the same total) at each Rani guess.
\<close>

theorem round_total_invariant:
  "(role_bijection player_names ra roles4 \<longrightarrow>
      (\<exists>pts pts'. calculate_points_4_players player_names ra (guessed_chor, guessed_sipahi) = Inr pts
         \<and> calculate_points_4_players player_names ra (guessed_chor', guessed_sipahi') = Inr pts'
         \<and> round_total pts player_names = 1750 \<and> round_total pts' player_names = 1750)) \<and>
   (role_bijection player_names ra roles5 \<longrightarrow>
      (\<exists>pts pts'. calculate_points_5_players player_names ra (guessed_chor, guessed_sipahi) guessed_rani
                     = Inr pts
         \<and> calculate_points_5_players player_names ra (guessed_chor', guessed_sipahi') guessed_rani
                     = Inr pts'
         \<and> round_total pts player_names = 2500 \<and> round_total pts' player_names = 2500))"
proof (intro conjI impI)
  assume rb: "role_bijection player_names ra roles4"
  from round_total_4 [OF rb, of guessed_chor guessed_sipahi]
       round_total_4 [OF rb, of guessed_chor' guessed_sipahi']
  show "\<exists>pts pts'. calculate_points_4_players player_names ra (guessed_chor, guessed_sipahi) = Inr pts
         \<and> calculate_points_4_players player_names ra (guessed_chor', guessed_sipahi') = Inr pts'
         \<and> round_total pts player_names = 1750 \<and> round_total pts' player_names = 1750"
    by blast
next
  assume rb: "role_bijection player_names ra roles5"
  from round_total_5 [OF rb, of guessed_chor guessed_sipahi guessed_rani]
       round_total_5 [OF rb, of guessed_chor' guessed_sipahi' guessed_rani]
  show "\<exists>pts pts'. calculate_points_5_players player_names ra (guessed_chor, guessed_sipahi) guessed_rani
                     = Inr pts
         \<and> calculate_points_5_players player_names ra (guessed_chor', guessed_sipahi') guessed_rani
                     = Inr pts'
         \<and> round_total pts player_names = 2500 \<and> round_total pts' player_names = 2500"
    by blast
qed

theorem round_total_invariant_witness:
  "role_bijection scenario_names4 scenario_roles4 roles4 \<and>
   role_bijection scenario_names5 scenario_roles5 roles5 \<and>
   (\<exists>pts pts'. calculate_points_4_players scenario_names4 scenario_roles4 (Some ''D'', Some ''C'')
                  = Inr pts
      \<and> calculate_points_4_players scenario_names4 scenario_roles4 (Some ''C'', Some ''D'') = Inr pts'
      \<and> round_total pts scenario_names4 = 1750 \<and> round_total pts' scenario_names4 = 1750) \<and>
   (\<exists>pts pts'. calculate_points_5_players scenario_names5 scenario_roles5 (Some ''E'', Some ''D'')
                  (Some ''C'') = Inr pts
      \<and> calculate_points_5_players scenario_names5 scenario_roles5 (Some ''D'', Some ''E'')
                  (Some ''C'') = Inr pts'
      \<and> round_total pts scenario_names5 = 2500 \<and> round_total pts' scenario_names5 = 2500)"
  using round_total_invariant [of scenario_names4 scenario_roles4 "Some ''D''" "Some ''C''"
      "Some ''C''" "Some ''D''"]
    round_total_invariant [of scenario_names5 scenario_roles5 "Some ''E''" "Some ''D''"
      "Some ''D''" "Some ''E''" "Some ''C''"]
    scenario4_bijection scenario5_bijection
  by simp

section \<open>Role assigner: shuffling and assignment\<close>

lemma shuffle_loop_mset:
  "i < length x \<Longrightarrow> mset (shuffle_loop rnd i x) = mset x"
proof (induction i arbitrary: x)
  case 0
  then show ?case by simp
next
  case (Suc i)
  let ?j = "rnd (Suc i) mod (Suc i + 1)"
  have "?j < Suc i + 1" by (rule mod_less_divisor) simp
  with Suc.prems have j: "?j < length x" by linarith
  let ?y = "x[Suc i := x ! ?j, ?j := x ! Suc i]"
  have "mset ?y = mset x" using j Suc.prems by (rule mset_swap)
  moreover have "i < length ?y" using Suc.prems by simp
  ultimately show ?case using Suc.IH [of ?y] by (simp add: Let_def)
qed

lemma shuffle_mset: "mset (shuffle rnd x) = mset x"
proof (cases x)
  case Nil
  then show ?thesis by (simp add: shuffle_def)
next
  case (Cons a as)
  then show ?thesis by (simp add: shuffle_def shuffle_loop_mset)
qed

lemma shuffle_set: "set (shuffle rnd x) = set x"
  using shuffle_mset [of rnd x] by (metis set_mset_mset)

lemma shuffle_length: "length (shuffle rnd x) = length x"
  using shuffle_mset [of rnd x] by (metis size_mset)

lemma shuffle_distinct: "distinct (shuffle rnd x) = distinct x"
  using shuffle_mset [of rnd x] by (metis mset_eq_imp_distinct_iff)

lemma fold_upd_map_of:
  "fold (\<lambda>(k, v) d. d(k \<mapsto> v)) ps m = m ++ map_of (rev ps)"
  by (induction ps arbitrary: m) (auto simp: map_add_def fun_eq_iff split: option.splits)

lemma dict_zip_map_of_rev: "dict_zip ks vs = map_of (rev (zip ks vs))"
  by (simp add: dict_zip_def fold_upd_map_of)



lemma dict_zip_distinct:
  assumes "distinct ks"
  shows "dict_zip ks vs = map_of (zip ks vs)"
proof -
  have d: "distinct (map fst (zip ks vs))"
    using assms by (simp add: map_fst_zip_take distinct_take)
  then have "distinct (map fst (rev (zip ks vs)))" by (simp add: rev_map [symmetric])
  from map_of_inject_set [OF this d] show ?thesis by (simp add: dict_zip_map_of_rev)
qed

lemma zip_bijection:
  assumes "distinct ks" "distinct vs" "length ks = length vs"
  shows "bij_betw (\<lambda>k. the (map_of (zip ks vs) k)) (set ks) (set vs)"
proof -
  let ?f = "\<lambda>k. the (map_of (zip ks vs) k)"
  have nth: "?f (ks ! i) = vs ! i" if "i < length vs" for i
    using map_of_zip_nth [OF assms(3) assms(1) that] by simp
  have "inj_on ?f (set ks)"
  proof (rule inj_onI)
    fix p q assume "p \<in> set ks" "q \<in> set ks" and eq: "?f p = ?f q"
    then obtain i j where i: "i < length ks" "p = ks ! i" and j: "j < length ks" "q = ks ! j"
      by (metis in_set_conv_nth)
    with eq nth assms(3) have "vs ! i = vs ! j" by simp
    with assms(2,3) i j have "i = j" by (simp add: nth_eq_iff_index_eq)
    with i j show "p = q" by simp
  qed
  moreover have "?f ` set ks = set vs"
  proof
    show "?f ` set ks \<subseteq> set vs"
    proof
      fix v assume "v \<in> ?f ` set ks"
      then obtain i where "i < length ks" "v = ?f (ks ! i)" by (auto simp: in_set_conv_nth)
      with nth assms(3) show "v \<in> set vs" by simp
    qed
    show "set vs \<subseteq> ?f ` set ks"
    proof
      fix v assume "v \<in> set vs"
      then obtain i where i: "i < length vs" "v = vs ! i" by (auto simp: in_set_conv_nth)
      with nth have "v = ?f (ks ! i)" by simp
      moreover from i assms(3) have "ks ! i \<in> set ks" by simp
      ultimately show "v \<in> ?f ` set ks" by blast
    qed
  qed
  ultimately show ?thesis by (simp add: bij_betw_def)
qed

lemma assign_roles_bijection:
  assumes "distinct player_names" "distinct rs" "length player_names = length rs"
  shows "role_bijection player_names (dict_zip (shuffle rnd player_names) rs) (set rs)"
proof -
  let ?s = "shuffle rnd player_names"
  have d: "distinct ?s" and l: "length ?s = length rs" and s: "set ?s = set player_names"
    using assms by (simp_all add: shuffle_distinct shuffle_length shuffle_set)
  have m: "dict_zip ?s rs = map_of (zip ?s rs)" using d by (rule dict_zip_distinct)
  have "dom (map_of (zip ?s rs)) = set player_names" using l s by simp
  moreover have "bij_betw (\<lambda>k. the (map_of (zip ?s rs) k)) (set player_names) (set rs)"
    using zip_bijection [OF d assms(2) l] s by simp
  ultimately show ?thesis using assms(1) by (simp add: role_bijection_def m)
qed



text \<open>
  C4: for a list of four (respectively five) distinct player identities,
  \<open>assign_roles_4_players\<close> (respectively \<open>assign_roles_5_players\<close>), and with it
  \<open>compute_roles_for_round\<close> at that player count, returns a mapping whose domain is exactly
  those identities and which is a bijection onto Raja, Mantri, Sipahi, Chor (respectively
  Raja, Rani, Mantri, Sipahi, Chor), whatever the random source draws.
\<close>

theorem assign_roles_bijective:
  assumes "distinct player_names"
  shows "(length player_names = 4 \<longrightarrow>
            role_bijection player_names (assign_roles_4_players rnd player_names) roles4 \<and>
            role_bijection player_names (compute_roles_for_round rnd player_names 4) roles4) \<and>
         (length player_names = 5 \<longrightarrow>
            role_bijection player_names (assign_roles_5_players rnd player_names) roles5 \<and>
            role_bijection player_names (compute_roles_for_round rnd player_names 5) roles5)"
proof (intro conjI impI)
  assume l: "length player_names = 4"
  have "role_bijection player_names
          (dict_zip (shuffle rnd player_names) [''Raja'', ''Mantri'', ''Sipahi'', ''Chor''])
          (set [''Raja'', ''Mantri'', ''Sipahi'', ''Chor''])"
    using assms l by (intro assign_roles_bijection) simp_all
  then show r4: "role_bijection player_names (assign_roles_4_players rnd player_names) roles4"
    by (simp add: assign_roles_4_players_def roles4_def)
  then show "role_bijection player_names (compute_roles_for_round rnd player_names 4) roles4"
    by (simp add: compute_roles_for_round_def)
next
  assume l: "length player_names = 5"
  have "role_bijection player_names
          (dict_zip (shuffle rnd player_names) [''Raja'', ''Rani'', ''Mantri'', ''Sipahi'', ''Chor''])
          (set [''Raja'', ''Rani'', ''Mantri'', ''Sipahi'', ''Chor''])"
    using assms l by (intro assign_roles_bijection) simp_all
  then show r5: "role_bijection player_names (assign_roles_5_players rnd player_names) roles5"
    by (simp add: assign_roles_5_players_def roles5_def)
  then show "role_bijection player_names (compute_roles_for_round rnd player_names 5) roles5"
    by (simp add: compute_roles_for_round_def)
qed

theorem assign_roles_bijective_witness:
  "distinct scenario_names4 \<and> length scenario_names4 = 4 \<and>
   distinct scenario_names5 \<and> length scenario_names5 = 5 \<and>
   role_bijection scenario_names4 (assign_roles_4_players zero_draws scenario_names4) roles4 \<and>
   role_bijection scenario_names4 (compute_roles_for_round zero_draws scenario_names4 4) roles4 \<and>
   role_bijection scenario_names5 (assign_roles_5_players zero_draws scenario_names5) roles5 \<and>
   role_bijection scenario_names5 (compute_roles_for_round zero_draws scenario_names5 5) roles5"
proof -
  have d4: "distinct scenario_names4" and d5: "distinct scenario_names5"
    by (simp_all add: scenario_names4_def scenario_names5_def)
  have l4: "length scenario_names4 = 4" and l5: "length scenario_names5 = 5"
    by (simp_all add: scenario_names4_def scenario_names5_def)
  show ?thesis
    using assign_roles_bijective [OF d4, of zero_draws] assign_roles_bijective [OF d5, of zero_draws]
      d4 d5 l4 l5
    by simp
qed



section \<open>The store and the room view\<close>

lemma strip_admin_name:
  "(if ''admin_name'' \<in> dom updates
    then (\<lambda>k. if k \<noteq> ''admin_name'' then updates k else None) else updates)
   = updates(''admin_name'' := None)"
  by (auto simp: fun_eq_iff)

lemma update_room_result:
  "code \<noteq> [] \<Longrightarrow>
   update_room code updates st =
     Inr (case updated_rows code (updates(''admin_name'' := None)) st of
            [] \<Rightarrow> Map.empty | r # _ \<Rightarrow> r,
          update_rows code (updates(''admin_name'' := None)) st)"
  by (simp add: update_room_def strip_admin_name Let_def)

lemma update_rows_admin_name:
  "map (\<lambda>r. r ''admin_name'') (rooms (update_rows code (updates(''admin_name'' := None)) st))
   = map (\<lambda>r. r ''admin_name'') (rooms st)"
  by (simp add: update_rows_def map_add_def)

lemma update_rows_others:
  "players (update_rows code updates st) = players st"
  "round_scores (update_rows code updates st) = round_scores st"
  by (simp_all add: update_rows_def)

lemma update_and_rerun_result:
  "code \<noteq> [] \<Longrightarrow>
   update_and_rerun code updates sess st =
     (Rerun, sess, update_rows code (updates(''admin_name'' := None)) st)"
  by (simp add: update_and_rerun_def update_room_result)

lemma fetch_room_update_rows:
  assumes "updates ''room_code'' = None"
  shows "fetch_room code (update_rows code updates st)
         = map_option (\<lambda>r. r ++ updates) (fetch_room code st)"
proof -
  let ?P = "\<lambda>r::room. r ''room_code'' = Some (JStr code)"
  let ?f = "\<lambda>r. if ?P r then r ++ updates else r"
  have "?P (?f r) = ?P r" for r
    using assms by (simp add: map_add_def)
  then have "filter ?P (map ?f rs) = map (\<lambda>r. r ++ updates) (filter ?P rs)" for rs
    by (induction rs) simp_all
  then show ?thesis
    by (simp add: fetch_room_def update_rows_def split: list.splits)
qed


lemma main_room_dispatch:
  assumes "room_code sess = Some code" "code \<noteq> []" "fetch_room code st = Some r"
    and "read_locals code r (fetch_players code st) sess = Inr l"
  shows "main_room rnd u sess st = dispatch rnd u l (room_get r ''current_phase'') sess st"
  using assms by (simp add: main_room_def room_view_def)

lemma read_locals_fields:
  assumes "read_locals code r ps sess = Inr l"
  shows "l_code l = code" "l_room l = r" "l_players l = ps"
    "l_this_player_name l = session_player_name sess"
proof -
  from assms obtain np nr cr rm me where
    me: "find (\<lambda>p. player_name p = session_player_name sess) ps = Some me"
    and l: "l = \<lparr>l_code = code, l_room = r, l_players = ps, l_num_players = np,
                 l_num_rounds = nr, l_current_round = cr, l_roles_map = rm,
                 l_this_player_name = player_name me\<rparr>"
    by (auto simp: read_locals_def split: if_splits sum.splits option.splits)
  from me have "player_name me = session_player_name sess"
    by (auto simp: find_Some_iff)
  with l show "l_code l = code" "l_room l = r" "l_players l = ps"
    "l_this_player_name l = session_player_name sess"
    by simp_all
qed

lemma new_round_updates_no_code:
  "new_round_updates n rs ''room_code'' = None"
  "new_round_updates n rs ''admin_name'' = None"
  by (simp_all add: new_round_updates_def)

lemma fun_upd_None_idem: "m k = None \<Longrightarrow> m(k := None) = m"
  by (simp add: fun_eq_iff)

lemma phase_round_result_admin:
  assumes "is_admin sess" "l_code l \<noteq> []"
  shows "phase_round_result rnd u l sess st =
     (if l_current_round l < l_num_rounds l then
        if clicked u = Some NextRound then
          (Rerun, sess,
           update_rows (l_code l)
             (new_round_updates (l_current_round l + 1)
                (compute_roles_for_round rnd (map player_name (l_players l)) (l_num_players l))) st)
        else (Returned, sess, st)
      else if clicked u = Some FinishGame then
        (Rerun, sess, update_rows (l_code l) [''current_phase'' \<mapsto> JStr PHASE_GAME_OVER] st)
      else (Returned, sess, st))"
  using assms
  by (simp add: phase_round_result_def update_and_rerun_result Let_def
      fun_upd_None_idem new_round_updates_no_code)

lemma dispatch_round_result:
  "dispatch rnd u l (JStr PHASE_ROUND_RESULT) sess st = phase_round_result rnd u l sess st"
  by (simp add: dispatch_def PHASE_ROUND_RESULT_def PHASE_RAJA_REVEAL_def PHASE_MANTRI_REVEAL_def
      PHASE_MANTRI_GUESS_def PHASE_RAJA_GUESS_def)

lemma scenario_fetch_players:
  "fetch_players ''R1'' (scenario_store_at phase n) = map scenario_player scenario_names4"
  by (simp add: fetch_players_def scenario_store_at_def scenario_store_def scenario_names4_def
      scenario_player_def)

lemma scenario_fetch_room:
  "fetch_room ''R1'' (scenario_store_at phase n) = Some (scenario_room_at phase n)"
  by (simp add: fetch_room_def scenario_store_at_def scenario_room_at_def scenario_room_def)

lemma scenario_roles_nonempty: "scenario_roles4 \<noteq> Map.empty"
proof
  assume "scenario_roles4 = Map.empty"
  then have "scenario_roles4 ''A'' = Map.empty ''A''" by (rule arg_cong)
  then show False by (simp add: scenario_roles4_def)
qed

lemma scenario_read_locals:
  assumes "me \<in> set scenario_names4"
  shows "read_locals ''R1'' (scenario_room_at phase n) (map scenario_player scenario_names4)
           (scenario_session me) = Inr (scenario_locals phase n me)"
proof -
  have "find (\<lambda>p. player_name p = me) (map scenario_player scenario_names4)
          = Some (scenario_player me)"
    using assms by (auto simp: scenario_names4_def scenario_player_def)
  then show ?thesis
    by (simp add: read_locals_def get_int_def get_roles_def room_get_def dict_get_def
        scenario_room_at_def scenario_room_def scenario_session_def scenario_locals_def
        scenario_names4_def scenario_player_def scenario_roles_nonempty)
qed

lemma scenario_A: "''A'' \<in> set scenario_names4"
  by (simp add: scenario_names4_def)

text \<open>
  C9: in the phase \<^verbatim>\<open>ROUND_RESULT\<close>, for the admin: Next Round applies only while the
  current round is below the number of rounds, and then the room row has the round
  incremented by one, the phase \<^verbatim>\<open>RAJA_REVEAL\<close>, a fresh assignment from the role assigner
  and the three guesses cleared; when the current round is not below the number of rounds,
  Next Round changes nothing, and when it equals the number of rounds only Finish Game
  acts, setting the phase \<^verbatim>\<open>GAME_OVER\<close>.
\<close>

theorem round_result_advance:
  assumes "room_code sess = Some code" and "code \<noteq> []" and "fetch_room code st = Some r"
    and "read_locals code r (fetch_players code st) sess = Inr l"
    and "room_get r ''current_phase'' = JStr PHASE_ROUND_RESULT"
    and "is_admin sess"
  shows "(clicked u = Some NextRound \<and> l_current_round l < l_num_rounds l \<longrightarrow>
            (\<exists>st' r'. main_room rnd u sess st = (Rerun, sess, st') \<and>
               fetch_room code st' = Some r' \<and>
               room_get r' ''current_round'' = JInt (l_current_round l + 1) \<and>
               room_get r' ''current_phase'' = JStr PHASE_RAJA_REVEAL \<and>
               room_get r' ''current_roles'' =
                 JRoles (compute_roles_for_round rnd (map player_name (fetch_players code st))
                           (l_num_players l)) \<and>
               room_get r' ''mantri_chor_guess'' = JNull \<and>
               room_get r' ''mantri_sipahi_guess'' = JNull \<and>
               room_get r' ''raja_rani_guess'' = JNull)) \<and>
         (clicked u = Some NextRound \<and> \<not> l_current_round l < l_num_rounds l \<longrightarrow>
            main_room rnd u sess st = (Returned, sess, st)) \<and>
         (clicked u = Some FinishGame \<and> l_current_round l = l_num_rounds l \<longrightarrow>
            (\<exists>st' r'. main_room rnd u sess st = (Rerun, sess, st') \<and>
               fetch_room code st' = Some r' \<and>
               room_get r' ''current_phase'' = JStr PHASE_GAME_OVER \<and>
               room_get r' ''current_round'' = room_get r ''current_round'')) \<and>
         (clicked u \<noteq> Some FinishGame \<and> l_current_round l = l_num_rounds l \<longrightarrow>
            main_room rnd u sess st = (Returned, sess, st))"
proof -
  note f = read_locals_fields [OF assms(4)]
  have m: "main_room rnd u sess st = phase_round_result rnd u l sess st"
    using main_room_dispatch [OF assms(1-4)] assms(5) by (simp add: dispatch_round_result)
  have c: "l_code l \<noteq> []" using f(1) assms(2) by simp
  note pr = phase_round_result_admin [OF assms(6) c]
  let ?upd = "new_round_updates (l_current_round l + 1)
                (compute_roles_for_round rnd (map player_name (fetch_players code st))
                   (l_num_players l))"
  have next_room: "fetch_room code (update_rows code ?upd st) = Some (r ++ ?upd)"
    using fetch_room_update_rows [of ?upd code st] assms(3)
    by (simp add: new_round_updates_no_code)
  have over_room: "fetch_room code (update_rows code [''current_phase'' \<mapsto> JStr PHASE_GAME_OVER] st)
      = Some (r ++ [''current_phase'' \<mapsto> JStr PHASE_GAME_OVER])"
    using fetch_room_update_rows [of "[''current_phase'' \<mapsto> JStr PHASE_GAME_OVER]" code st]
      assms(3)
    by simp
  have vals: "room_get (r ++ ?upd) ''current_round'' = JInt (l_current_round l + 1)"
    "room_get (r ++ ?upd) ''current_phase'' = JStr PHASE_RAJA_REVEAL"
    "room_get (r ++ ?upd) ''current_roles'' =
       JRoles (compute_roles_for_round rnd (map player_name (fetch_players code st))
                 (l_num_players l))"
    "room_get (r ++ ?upd) ''mantri_chor_guess'' = JNull"
    "room_get (r ++ ?upd) ''mantri_sipahi_guess'' = JNull"
    "room_get (r ++ ?upd) ''raja_rani_guess'' = JNull"
    by (simp_all add: room_get_def dict_get_def new_round_updates_def map_add_def)
  have over_vals:
    "room_get (r ++ [''current_phase'' \<mapsto> JStr PHASE_GAME_OVER]) ''current_phase''
       = JStr PHASE_GAME_OVER"
    "room_get (r ++ [''current_phase'' \<mapsto> JStr PHASE_GAME_OVER]) ''current_round''
       = room_get r ''current_round''"
    by (simp_all add: room_get_def dict_get_def map_add_def)
  show ?thesis
    using next_room over_room vals over_vals
    by (simp add: m pr f)
qed

theorem round_result_advance_witness:
  "room_code (scenario_session ''A'') = Some ''R1'' \<and> ''R1'' \<noteq> [] \<and>
   is_admin (scenario_session ''A'') \<and>
   fetch_room ''R1'' (scenario_store_at PHASE_ROUND_RESULT 1)
     = Some (scenario_room_at PHASE_ROUND_RESULT 1) \<and>
   read_locals ''R1'' (scenario_room_at PHASE_ROUND_RESULT 1)
     (fetch_players ''R1'' (scenario_store_at PHASE_ROUND_RESULT 1)) (scenario_session ''A'')
     = Inr (scenario_locals PHASE_ROUND_RESULT 1 ''A'') \<and>
   room_get (scenario_room_at PHASE_ROUND_RESULT 1) ''current_phase'' = JStr PHASE_ROUND_RESULT \<and>
   l_current_round (scenario_locals PHASE_ROUND_RESULT 1 ''A'')
     < l_num_rounds (scenario_locals PHASE_ROUND_RESULT 1 ''A'') \<and>
   (\<exists>st' r'. main_room zero_draws (click NextRound) (scenario_session ''A'')
                (scenario_store_at PHASE_ROUND_RESULT 1) = (Rerun, scenario_session ''A'', st') \<and>
      fetch_room ''R1'' st' = Some r' \<and>
      room_get r' ''current_round'' = JInt 2 \<and>
      room_get r' ''current_phase'' = JStr PHASE_RAJA_REVEAL \<and>
      room_get r' ''mantri_chor_guess'' = JNull \<and>
      room_get r' ''mantri_sipahi_guess'' = JNull \<and>
      room_get r' ''raja_rani_guess'' = JNull) \<and>
   main_room zero_draws (click NextRound) (scenario_session ''A'')
     (scenario_store_at PHASE_ROUND_RESULT 2)
     = (Returned, scenario_session ''A'', scenario_store_at PHASE_ROUND_RESULT 2) \<and>
   (\<exists>st' r'. main_room zero_draws (click FinishGame) (scenario_session ''A'')
                (scenario_store_at PHASE_ROUND_RESULT 2) = (Rerun, scenario_session ''A'', st') \<and>
      fetch_room ''R1'' st' = Some r' \<and>
      room_get r' ''current_phase'' = JStr PHASE_GAME_OVER)"
proof -
  have s: "room_code (scenario_session ''A'') = Some ''R1''" "is_admin (scenario_session ''A'')"
    by (simp_all add: scenario_session_def)
  have ne: "''R1'' \<noteq> []" by simp
  have ph: "room_get (scenario_room_at PHASE_ROUND_RESULT n) ''current_phase''
              = JStr PHASE_ROUND_RESULT" for n
    by (simp add: room_get_def dict_get_def scenario_room_at_def)
  have rl: "read_locals ''R1'' (scenario_room_at PHASE_ROUND_RESULT n)
              (fetch_players ''R1'' (scenario_store_at PHASE_ROUND_RESULT n))
              (scenario_session ''A'') = Inr (scenario_locals PHASE_ROUND_RESULT n ''A'')" for n
    by (simp add: scenario_fetch_players scenario_read_locals [OF scenario_A])
  have cl: "clicked (click b) = Some b" for b by (simp add: click_def)
  note t1 = round_result_advance [OF s(1) ne scenario_fetch_room [of PHASE_ROUND_RESULT 1]
      rl [of 1] ph [of 1] s(2), where u = "click NextRound" and rnd = zero_draws]
  note t2 = round_result_advance [OF s(1) ne scenario_fetch_room [of PHASE_ROUND_RESULT 2]
      rl [of 2] ph [of 2] s(2), where u = "click NextRound" and rnd = zero_draws]
  note t3 = round_result_advance [OF s(1) ne scenario_fetch_room [of PHASE_ROUND_RESULT 2]
      rl [of 2] ph [of 2] s(2), where u = "click FinishGame" and rnd = zero_draws]
  have r1: "l_current_round (scenario_locals PHASE_ROUND_RESULT n ''A'') = n"
    "l_num_rounds (scenario_locals PHASE_ROUND_RESULT n ''A'') = 2" for n
    by (simp_all add: scenario_locals_def)
  from t1 have c1: "\<exists>st' r'. main_room zero_draws (click NextRound) (scenario_session ''A'')
                (scenario_store_at PHASE_ROUND_RESULT 1) = (Rerun, scenario_session ''A'', st') \<and>
      fetch_room ''R1'' st' = Some r' \<and>
      room_get r' ''current_round'' = JInt 2 \<and>
      room_get r' ''current_phase'' = JStr PHASE_RAJA_REVEAL \<and>
      room_get r' ''mantri_chor_guess'' = JNull \<and>
      room_get r' ''mantri_sipahi_guess'' = JNull \<and>
      room_get r' ''raja_rani_guess'' = JNull"
    by (simp add: cl r1) blast
  from t2 have c2: "main_room zero_draws (click NextRound) (scenario_session ''A'')
     (scenario_store_at PHASE_ROUND_RESULT 2)
     = (Returned, scenario_session ''A'', scenario_store_at PHASE_ROUND_RESULT 2)"
    by (simp add: cl r1)
  from t3 have c3: "\<exists>st' r'. main_room zero_draws (click FinishGame) (scenario_session ''A'')
                (scenario_store_at PHASE_ROUND_RESULT 2) = (Rerun, scenario_session ''A'', st') \<and>
      fetch_room ''R1'' st' = Some r' \<and>
      room_get r' ''current_phase'' = JStr PHASE_GAME_OVER"
    by (simp add: cl r1) blast
  show ?thesis
    using s ne scenario_fetch_room [of PHASE_ROUND_RESULT 1] rl [of 1] ph [of 1] c1 c2 c3
    by (simp add: r1)
qed

section \<open>The room view: actors, submissions and the inferred Sipahi\<close>

lemmas phase_defs = PHASE_RAJA_REVEAL_def PHASE_MANTRI_REVEAL_def PHASE_MANTRI_GUESS_def
  PHASE_RAJA_GUESS_def PHASE_ROUND_RESULT_def PHASE_GAME_OVER_def

lemma dispatch_phases:
  "dispatch rnd u l JNull sess st = phase_lobby rnd u l sess st"
  "dispatch rnd u l (JStr PHASE_RAJA_REVEAL) sess st = phase_raja_reveal u l sess st"
  "dispatch rnd u l (JStr PHASE_MANTRI_REVEAL) sess st = phase_mantri_reveal u l sess st"
  "dispatch rnd u l (JStr PHASE_MANTRI_GUESS) sess st = phase_mantri_guess u l sess st"
  "dispatch rnd u l (JStr PHASE_RAJA_GUESS) sess st = phase_raja_guess u l sess st"
  "dispatch rnd u l (JStr PHASE_GAME_OVER) sess st = phase_game_over u l sess st"
  by (simp_all add: dispatch_def phase_defs)





lemma scenario_session_fields:
  "room_code (scenario_session n) = Some ''R1''"
  "is_admin (scenario_session n) = (n = ''A'')"
  "session_player_name (scenario_session n) = n"
  by (simp_all add: scenario_session_def)









lemma scenario_locals_fields:
  "l_code (scenario_locals phase n me) = ''R1''"
  "l_room (scenario_locals phase n me) = scenario_room_at phase n"
  "l_players (scenario_locals phase n me) = map scenario_player scenario_names4"
  "l_num_players (scenario_locals phase n me) = 4"
  "l_num_rounds (scenario_locals phase n me) = 2"
  "l_current_round (scenario_locals phase n me) = n"
  "l_roles_map (scenario_locals phase n me) = scenario_roles4"
  "l_this_player_name (scenario_locals phase n me) = me"
  by (simp_all add: scenario_locals_def)

lemma scenario_player_names:
  "map (player_name \<circ> scenario_player) ns = ns"
  by (induction ns) (simp_all add: scenario_player_def)

lemma scenario_hidden: "hidden_names (scenario_locals phase n me) = [''C'', ''D'']"
  by (simp add: hidden_names_def scenario_locals_fields scenario_names4_def scenario_player_def
      scenario_roles4_def)












lemma find_filter:
  "find P xs = (case filter P xs of [] \<Rightarrow> None | x # _ \<Rightarrow> Some x)"
  by (induction xs) simp_all

lemma eligible_hidden_players_total:
  "set ps \<subseteq> dom ra \<Longrightarrow>
   eligible_hidden_players ps ra
     = Inr (filter (\<lambda>p. ra p \<notin> {Some ''Raja'', Some ''Mantri''}) ps)"
  by (induction ps) (auto simp: ebind_def)

lemma infer_sipahi_4p_total:
  "set ps \<subseteq> dom ra \<Longrightarrow> infer_sipahi_4p ps ra gc = first (sipahi_candidates ps ra gc)"
  by (simp add: infer_sipahi_4p_def eligible_hidden_players_total ebind_def sipahi_candidates_def)

lemma view_candidates_eq:
  "view_candidates l (Some gc)
     = sipahi_candidates (map player_name (l_players l)) (l_roles_map l) gc"
  by (simp add: view_candidates_def sipahi_candidates_def hidden_names_def filter_map comp_def)

lemma sipahi_choice_first:
  "l_num_players l \<noteq> 5 \<Longrightarrow>
   sipahi_choice u l c = (case view_candidates l c of [] \<Rightarrow> None | s # _ \<Rightarrow> Some s)"
  by (simp add: sipahi_choice_def view_candidates_def find_filter)

lemma candidates_unique:
  assumes rb: "role_bijection ps ra roles4"
    and gc: "ra gc \<in> {Some ''Sipahi'', Some ''Chor''}"
    and s: "ra s \<in> {Some ''Sipahi'', Some ''Chor''}" "s \<noteq> gc"
  shows "sipahi_candidates ps ra gc = [s]"
proof -
  from role_bijection_holder [OF rb] obtain raja mantri sipahi chor
    where h: "ra raja = Some ''Raja''" "ra mantri = Some ''Mantri''"
           "ra sipahi = Some ''Sipahi''" "ra chor = Some ''Chor''"
    unfolding roles4_def by (metis insertI1 insertI2)
  note ps = players_are_holders4 [OF rb h]
  have eq: "x = y" if "ra x = Some r" "ra y = Some r" for x y r
    using role_bijection_unique [OF rb that] .
  from gc s have two: "{gc, s} = {sipahi, chor}"
    using h(3,4) by (auto dest: eq)
  have d: "distinct ps" using rb by (simp add: role_bijection_def)
  have sin: "s \<in> set ps" using two ps by auto
  have "\<forall>y \<in> set ps. (ra y \<noteq> Some ''Raja'' \<and> ra y \<noteq> Some ''Mantri'' \<and> y \<noteq> gc) \<longleftrightarrow> s = y"
  proof
    fix y assume "y \<in> set ps"
    with ps have y: "y = raja \<or> y = mantri \<or> y = sipahi \<or> y = chor" by simp
    from two have "(gc = sipahi \<and> s = chor) \<or> (gc = chor \<and> s = sipahi)"
      using s(2) by (auto simp: doubleton_eq_iff)
    with y h show "(ra y \<noteq> Some ''Raja'' \<and> ra y \<noteq> Some ''Mantri'' \<and> y \<noteq> gc) \<longleftrightarrow> s = y"
      by auto
  qed
  from filter_single [OF d sin this] show ?thesis
    by (simp add: sipahi_candidates_def)
qed

lemma no_candidate_message:
  assumes "session_holds l sess ''Mantri''" "l_this_player_name l = session_player_name sess"
    and "l_num_players l \<noteq> 5"
    and "view_candidates l (selectbox (hidden_names l) (chor_index u)) = []"
  shows "phase_mantri_guess u l sess st = (Shown ''Unable to determine Sipahi choice.'', sess, st)"
  using assms
  by (auto simp: phase_mantri_guess_def session_holds_def sipahi_choice_first Let_def
      split: option.splits)

lemma scenario5_candidates:
  "sipahi_candidates scenario_names5 scenario_roles5 ''E'' = [''B'', ''D'']"
  by (simp add: sipahi_candidates_def scenario_names5_def scenario_roles5_def)

lemma scenario5_dom: "set scenario_names5 \<subseteq> dom scenario_roles5"
  using scenario5_bijection by (simp add: role_bijection_def)

lemma scenario_roles5_nonempty: "scenario_roles5 \<noteq> Map.empty"
proof
  assume "scenario_roles5 = Map.empty"
  then have "scenario_roles5 ''A'' = Map.empty ''A''" by (rule arg_cong)
  then show False by (simp add: scenario_roles5_def)
qed

lemma faulty_fetch:
  "fetch_room ''R1'' faulty_store = Some (scenario_room(''current_roles'' \<mapsto> JRoles scenario_roles5))"
  "fetch_players ''R1'' faulty_store = map scenario_player scenario_names5"
  by (simp_all add: fetch_room_def fetch_players_def faulty_store_def scenario_room_def
      scenario_names5_def scenario_player_def)

lemma faulty_reads:
  "read_locals ''R1'' (scenario_room(''current_roles'' \<mapsto> JRoles scenario_roles5))
     (map scenario_player scenario_names5) (scenario_session ''C'') = Inr faulty_locals"
proof -
  have "find (\<lambda>p. player_name p = ''C'') (map scenario_player scenario_names5)
          = Some (scenario_player ''C'')"
    by (simp add: scenario_names5_def scenario_player_def)
  then show ?thesis
    by (simp add: read_locals_def get_int_def get_roles_def room_get_def dict_get_def
        scenario_room_def scenario_session_def faulty_locals_def scenario_names5_def
        scenario_player_def scenario_roles5_nonempty)
qed

lemma faulty_points:
  "calculate_points_4_players scenario_names5 scenario_roles5 (Some ''E'', Some ''B'')
     = Inr ((init_points scenario_names5)
              (''C'' \<mapsto> 0, ''E'' \<mapsto> 500, ''A'' \<mapsto> 1000, ''D'' \<mapsto> 250))"
  using calculate_points_4_players_result [OF scenario5_bijection,
      of "''A''" "''C''" "''D''" "''E''" "Some ''E''" "Some ''B''"]
  by (simp add: scenario_roles5_def)

lemma faulty_submit:
  "phase_mantri_guess faulty_ui faulty_locals (scenario_session ''C'') st
   = (Rerun, scenario_session ''C'',
      update_rows ''R1'' faulty_updates
        (insert_round_scores
           [score ''A'' 1000, score ''B'' 0, score ''C'' 0, score ''D'' 250, score ''E'' 500] st))"
proof -
  have u: "faulty_updates(''admin_name'' := None) = faulty_updates"
    by (simp add: fun_eq_iff faulty_updates_def)
  have m: "main_player_with_role faulty_locals ''Mantri'' = Some (scenario_player ''C'')"
    by (simp add: main_player_with_role_def faulty_locals_def scenario_names5_def
        scenario_player_def scenario_roles5_def)
  have h: "hidden_names faulty_locals = [''B'', ''D'', ''E'']"
    by (simp add: hidden_names_def faulty_locals_def scenario_names5_def scenario_player_def
        scenario_roles5_def)
  have f: "l_code faulty_locals = ''R1''" "l_num_players faulty_locals = 4"
    "l_this_player_name faulty_locals = ''C''" "l_roles_map faulty_locals = scenario_roles5"
    "l_players faulty_locals = map scenario_player scenario_names5"
    by (simp_all add: faulty_locals_def)
  have r: "score_rows faulty_locals
     ((init_points scenario_names5)(''C'' \<mapsto> 0, ''E'' \<mapsto> 500, ''A'' \<mapsto> 1000, ''D'' \<mapsto> 250))
     = [score ''A'' 1000, score ''B'' 0, score ''C'' 0, score ''D'' 250, score ''E'' 500]"
    by (simp add: score_rows_def faulty_locals_def scenario_names5_def scenario_player_def
        score_def dict_get_def init_points_apply)
  show ?thesis
    by (simp add: phase_mantri_guess_def m h f scenario_player_def [of "''C''"]
        sipahi_choice_def selectbox_def faulty_ui_def scenario_player_names faulty_points r
        update_and_rerun_result [of "''R1''" faulty_updates, unfolded u]
        faulty_updates_def [symmetric])
qed







text \<open>
  C8, as stated: the inferred Sipahi is the unique hidden player other than the chosen Chor,
  and the inference fails when there are no or several candidates. With several candidates
  nothing fails: \<open>infer_sipahi_4p\<close> and the room view take the first one, and in the faulty
  room the submission goes through with B recorded as the Sipahi guess.
\<close>

theorem sipahi_two_candidates_counterexample:
  "sipahi_candidates scenario_names5 scenario_roles5 ''E'' = [''B'', ''D''] \<and>
   infer_sipahi_4p scenario_names5 scenario_roles5 ''E'' = Inr ''B'' \<and>
   view_candidates faulty_locals (Some ''E'') = [''B'', ''D''] \<and>
   fst (main_room zero_draws faulty_ui (scenario_session ''C'') faulty_store) = Rerun \<and>
   room_column ''R1'' ''mantri_sipahi_guess''
     (snd (snd (main_room zero_draws faulty_ui (scenario_session ''C'') faulty_store))) = JStr ''B'' \<and>
   room_column ''R1'' ''current_phase''
     (snd (snd (main_room zero_draws faulty_ui (scenario_session ''C'') faulty_store)))
     = JStr PHASE_ROUND_RESULT"
proof -
  have ne: "''R1'' \<noteq> []" by simp
  have ph: "room_get (scenario_room(''current_roles'' \<mapsto> JRoles scenario_roles5)) ''current_phase''
              = JStr PHASE_MANTRI_GUESS"
    by (simp add: room_get_def dict_get_def scenario_room_def PHASE_MANTRI_GUESS_def)
  have rl: "read_locals ''R1'' (scenario_room(''current_roles'' \<mapsto> JRoles scenario_roles5))
     (fetch_players ''R1'' faulty_store) (scenario_session ''C'') = Inr faulty_locals"
    by (simp add: faulty_fetch faulty_reads)
  have run: "main_room zero_draws faulty_ui (scenario_session ''C'') faulty_store
     = (Rerun, scenario_session ''C'',
        update_rows ''R1'' faulty_updates
          (insert_round_scores
             [score ''A'' 1000, score ''B'' 0, score ''C'' 0, score ''D'' 250, score ''E'' 500]
             faulty_store))"
    by (simp add: main_room_dispatch [OF scenario_session_fields(1) ne faulty_fetch(1) rl]
        ph dispatch_phases faulty_submit)
  have nc: "faulty_updates ''room_code'' = None" by (simp add: faulty_updates_def)
  have fr: "fetch_room ''R1'' (insert_round_scores rows faulty_store)
              = Some (scenario_room(''current_roles'' \<mapsto> JRoles scenario_roles5))" for rows
    using faulty_fetch(1) by (simp add: fetch_room_def insert_round_scores_def)
  have col: "room_column ''R1'' key
               (update_rows ''R1'' faulty_updates (insert_round_scores rows faulty_store))
             = room_get (scenario_room(''current_roles'' \<mapsto> JRoles scenario_roles5)
                           ++ faulty_updates) key" for key rows
    by (simp add: room_column_def fetch_room_update_rows [of faulty_updates, OF nc] fr)
  have v: "view_candidates faulty_locals (Some ''E'') = [''B'', ''D'']"
    by (simp add: view_candidates_eq faulty_locals_def scenario_player_names scenario5_candidates)
  have c1: "room_column ''R1'' ''mantri_sipahi_guess''
     (snd (snd (main_room zero_draws faulty_ui (scenario_session ''C'') faulty_store))) = JStr ''B''"
    unfolding run snd_conv col
    by (simp add: room_get_def dict_get_def map_add_def faulty_updates_def)
  have c2: "room_column ''R1'' ''current_phase''
     (snd (snd (main_room zero_draws faulty_ui (scenario_session ''C'') faulty_store)))
     = JStr PHASE_ROUND_RESULT"
    unfolding run snd_conv col
    by (simp add: room_get_def dict_get_def map_add_def faulty_updates_def)
  show ?thesis
    using v c1 c2
    by (simp add: scenario5_candidates infer_sipahi_4p_total [OF scenario5_dom] first_def run)
qed

text \<open>
  C8, amended: outside five-player mode the Mantri submits no Sipahi guess; it is the first
  hidden player, in player order, other than the chosen Chor. When there is no such player,
  \<open>infer_sipahi_4p\<close> (on an assignment that has every player) raises \<^verbatim>\<open>IndexError\<close> and
  the room view stops with a message, changing nothing; when there are several, the first
  is taken. When the roles are a bijection of four players and the chosen Chor is hidden,
  there is exactly one candidate, the other hidden player.
\<close>

theorem sipahi_inferred_first_candidate:
  "(set player_names \<subseteq> dom ra \<longrightarrow>
      infer_sipahi_4p player_names ra guessed_chor =
        (case sipahi_candidates player_names ra guessed_chor of
           [] \<Rightarrow> Inl IndexError | s # _ \<Rightarrow> Inr s)) \<and>
   (role_bijection player_names ra roles4 \<and> ra guessed_chor \<in> {Some ''Sipahi'', Some ''Chor''} \<and>
    ra s \<in> {Some ''Sipahi'', Some ''Chor''} \<and> s \<noteq> guessed_chor \<longrightarrow>
      sipahi_candidates player_names ra guessed_chor = [s] \<and>
      infer_sipahi_4p player_names ra guessed_chor = Inr s) \<and>
   view_candidates l (Some guessed_chor)
     = sipahi_candidates (map player_name (l_players l)) (l_roles_map l) guessed_chor \<and>
   (l_num_players l \<noteq> 5 \<longrightarrow>
      sipahi_choice u l chor_choice =
        (case view_candidates l chor_choice of [] \<Rightarrow> None | s # _ \<Rightarrow> Some s)) \<and>
   (session_holds l sess ''Mantri'' \<and> l_this_player_name l = session_player_name sess \<and>
    l_num_players l \<noteq> 5 \<and>
    view_candidates l (selectbox (hidden_names l) (chor_index u)) = [] \<longrightarrow>
      phase_mantri_guess u l sess st
        = (Shown ''Unable to determine Sipahi choice.'', sess, st))"
proof -
  have c1: "infer_sipahi_4p player_names ra guessed_chor =
        (case sipahi_candidates player_names ra guessed_chor of
           [] \<Rightarrow> Inl IndexError | s # _ \<Rightarrow> Inr s)"
    if "set player_names \<subseteq> dom ra"
    using that by (simp add: infer_sipahi_4p_total first_def)
  have c2: "sipahi_candidates player_names ra guessed_chor = [s] \<and>
      infer_sipahi_4p player_names ra guessed_chor = Inr s"
    if a: "role_bijection player_names ra roles4 \<and>
      ra guessed_chor \<in> {Some ''Sipahi'', Some ''Chor''} \<and>
      ra s \<in> {Some ''Sipahi'', Some ''Chor''} \<and> s \<noteq> guessed_chor"
  proof -
    from a have c: "sipahi_candidates player_names ra guessed_chor = [s]"
      by (intro candidates_unique) simp_all
    from a have "set player_names \<subseteq> dom ra" by (simp add: role_bijection_def)
    then have "infer_sipahi_4p player_names ra guessed_chor = Inr s"
      by (simp add: infer_sipahi_4p_total c first_def)
    with c show ?thesis by simp
  qed
  have c3: "view_candidates l (Some guessed_chor)
     = sipahi_candidates (map player_name (l_players l)) (l_roles_map l) guessed_chor"
    by (rule view_candidates_eq)
  have c4: "sipahi_choice u l chor_choice =
        (case view_candidates l chor_choice of [] \<Rightarrow> None | s # _ \<Rightarrow> Some s)"
    if "l_num_players l \<noteq> 5"
    using that by (rule sipahi_choice_first)
  have c5: "phase_mantri_guess u l sess st
        = (Shown ''Unable to determine Sipahi choice.'', sess, st)"
    if "session_holds l sess ''Mantri'' \<and> l_this_player_name l = session_player_name sess \<and>
      l_num_players l \<noteq> 5 \<and>
      view_candidates l (selectbox (hidden_names l) (chor_index u)) = []"
    using that by (intro no_candidate_message) simp_all
  from c1 c2 c3 c4 c5 show ?thesis by blast
qed

theorem sipahi_inferred_first_candidate_witness:
  "set scenario_names4 \<subseteq> dom scenario_roles4 \<and>
   role_bijection scenario_names4 scenario_roles4 roles4 \<and>
   scenario_roles4 ''D'' \<in> {Some ''Sipahi'', Some ''Chor''} \<and>
   scenario_roles4 ''C'' \<in> {Some ''Sipahi'', Some ''Chor''} \<and> ''C'' \<noteq> ''D'' \<and>
   sipahi_candidates scenario_names4 scenario_roles4 ''D'' = [''C''] \<and>
   infer_sipahi_4p scenario_names4 scenario_roles4 ''D'' = Inr ''C'' \<and>
   set [''A'', ''B''] \<subseteq> dom scenario_roles4 \<and>
   infer_sipahi_4p [''A'', ''B''] scenario_roles4 ''D'' = Inl IndexError \<and>
   l_num_players (scenario_locals PHASE_MANTRI_GUESS 1 ''B'') \<noteq> 5 \<and>
   sipahi_choice guess_ui (scenario_locals PHASE_MANTRI_GUESS 1 ''B'') (Some ''D'') = Some ''C'' \<and>
   session_holds short_locals (scenario_session ''B'') ''Mantri'' \<and>
   l_this_player_name short_locals = session_player_name (scenario_session ''B'') \<and>
   l_num_players short_locals \<noteq> 5 \<and>
   view_candidates short_locals (selectbox (hidden_names short_locals) (chor_index guess_ui)) = [] \<and>
   phase_mantri_guess guess_ui short_locals (scenario_session ''B'') scenario_store
     = (Shown ''Unable to determine Sipahi choice.'', scenario_session ''B'', scenario_store)"
proof -
  have d4: "set scenario_names4 \<subseteq> dom scenario_roles4"
    using scenario4_bijection by (simp add: role_bijection_def)
  have d2: "set [''A'', ''B''] \<subseteq> dom scenario_roles4"
    using d4 by (simp add: scenario_names4_def)
  have r: "scenario_roles4 ''D'' \<in> {Some ''Sipahi'', Some ''Chor''}"
    "scenario_roles4 ''C'' \<in> {Some ''Sipahi'', Some ''Chor''}" "''C'' \<noteq> ''D''"
    by (simp_all add: scenario_roles4_def)
  have c2: "sipahi_candidates [''A'', ''B''] scenario_roles4 ''D'' = []"
    by (simp add: sipahi_candidates_def scenario_roles4_def)
  have vc: "view_candidates (scenario_locals PHASE_MANTRI_GUESS 1 ''B'') (Some ''D'') = [''C'']"
    by (simp add: view_candidates_def scenario_hidden)
  have sh: "session_holds short_locals (scenario_session ''B'') ''Mantri''"
    by (simp add: session_holds_def main_player_with_role_def short_locals_def
        scenario_locals_fields scenario_player_def scenario_roles4_def scenario_session_fields)
  have sf: "l_this_player_name short_locals = session_player_name (scenario_session ''B'')"
    "l_num_players short_locals \<noteq> 5"
    by (simp_all add: short_locals_def scenario_locals_fields scenario_session_fields)
  have hn: "hidden_names short_locals = []"
    by (simp add: hidden_names_def short_locals_def scenario_locals_fields scenario_player_def
        scenario_roles4_def)
  have sv: "view_candidates short_locals (selectbox (hidden_names short_locals) (chor_index guess_ui))
              = []"
    by (simp add: view_candidates_def hn)
  note t1 = sipahi_inferred_first_candidate [of scenario_names4 scenario_roles4 "''D''" "''C''"
      "scenario_locals PHASE_MANTRI_GUESS 1 ''B''" guess_ui "Some ''D''"
      "scenario_session ''B''" scenario_store]
  note t2 = sipahi_inferred_first_candidate [of "[''A'', ''B'']" scenario_roles4 "''D''" "''C''"
      short_locals guess_ui "Some ''D''" "scenario_session ''B''" scenario_store]
  from t1 d4 scenario4_bijection r
  have a1: "sipahi_candidates scenario_names4 scenario_roles4 ''D'' = [''C'']"
    "infer_sipahi_4p scenario_names4 scenario_roles4 ''D'' = Inr ''C''"
    by simp_all
  from t1 vc have a2: "sipahi_choice guess_ui (scenario_locals PHASE_MANTRI_GUESS 1 ''B'')
      (Some ''D'') = Some ''C''"
    by (simp add: scenario_locals_fields)
  from t2 d2 c2 have a3: "infer_sipahi_4p [''A'', ''B''] scenario_roles4 ''D'' = Inl IndexError"
    by simp
  from t2 sh sf sv have a4: "phase_mantri_guess guess_ui short_locals (scenario_session ''B'')
      scenario_store
     = (Shown ''Unable to determine Sipahi choice.'', scenario_session ''B'', scenario_store)"
    by simp
  show ?thesis
    using d4 d2 scenario4_bijection r a1 a2 a3 a4 sh sf sv
    by (simp add: scenario_locals_fields)
qed

lemma update_and_rerun_admin:
  "admin_names (snd (snd (update_and_rerun code updates sess st))) = admin_names st"
proof (cases "code = []")
  case True
  then show ?thesis by (simp add: update_and_rerun_def update_room_def)
next
  case False
  then show ?thesis
    using update_rows_admin_name [of code updates st]
    by (simp add: update_and_rerun_result admin_names_def)
qed

lemma insert_round_scores_admin:
  "admin_names (insert_round_scores rows st) = admin_names st"
  by (simp add: insert_round_scores_def admin_names_def)

lemma phases_admin:
  "admin_names (snd (snd (phase_lobby rnd u l sess st))) = admin_names st"
  "admin_names (snd (snd (phase_raja_reveal u l sess st))) = admin_names st"
  "admin_names (snd (snd (phase_mantri_reveal u l sess st))) = admin_names st"
  "admin_names (snd (snd (phase_round_result rnd u l sess st))) = admin_names st"
  "admin_names (snd (snd (phase_game_over u l sess st))) = admin_names st"
  by (simp_all add: phase_lobby_def phase_raja_reveal_def phase_mantri_reveal_def
      phase_round_result_def phase_game_over_def update_and_rerun_admin Let_def)

lemma guess_phases_admin:
  "admin_names (snd (snd (phase_mantri_guess u l sess st))) = admin_names st"
  "admin_names (snd (snd (phase_raja_guess u l sess st))) = admin_names st"
  by (simp_all add: phase_mantri_guess_def phase_raja_guess_def update_and_rerun_admin
      insert_round_scores_admin Let_def split: option.split sum.split)

lemma main_room_admin:
  "admin_names (snd (snd (main_room rnd u sess st))) = admin_names st"
  by (simp add: main_room_def room_view_def dispatch_def phases_admin guess_phases_admin
      split: option.split sum.split)

text \<open>
  C10: \<open>update_room\<close> never changes \<^verbatim>\<open>admin_name\<close>. For a non-empty room code it succeeds,
  the \<^verbatim>\<open>admin_name\<close> column of every room row is what it was before, and the call is the
  same as the call with the \<^verbatim>\<open>admin_name\<close> key removed from the dictionary. The room view
  changes rooms through \<open>update_room\<close> only, so no run of it changes the column either.
\<close>

theorem update_room_keeps_admin_name:
  assumes "code \<noteq> []"
  shows "(\<exists>row st'. update_room code updates st = Inr (row, st')
            \<and> admin_names st' = admin_names st
            \<and> update_room code (updates(''admin_name'' := None)) st = Inr (row, st'))
         \<and> admin_names (snd (snd (main_room rnd u sess st))) = admin_names st"
  using assms update_rows_admin_name [of code updates st]
  by (simp add: update_room_result admin_names_def [symmetric] main_room_admin)

theorem update_room_keeps_admin_name_witness:
  "''R1'' \<noteq> [] \<and>
   (\<exists>row st'. update_room ''R1''
                 [''admin_name'' \<mapsto> JStr ''D'', ''current_phase'' \<mapsto> JStr ''ROUND_RESULT'']
                 scenario_store = Inr (row, st')
      \<and> admin_names st' = [Some (JStr ''A'')]
      \<and> map (\<lambda>r. r ''current_phase'') (rooms st') = [Some (JStr ''ROUND_RESULT'')])"
proof -
  let ?upd = "[''admin_name'' \<mapsto> JStr ''D'', ''current_phase'' \<mapsto> JStr ''ROUND_RESULT'']"
  have ne: "''R1'' \<noteq> []" by simp
  from update_room_keeps_admin_name [OF ne, of ?upd scenario_store]
  obtain row st' where r: "update_room ''R1'' ?upd scenario_store = Inr (row, st')"
    and a: "admin_names st' = admin_names scenario_store"
    by blast
  from r have "st' = update_rows ''R1'' (?upd(''admin_name'' := None)) scenario_store"
    by (simp add: update_room_result)
  then have "map (\<lambda>r. r ''current_phase'') (rooms st') = [Some (JStr ''ROUND_RESULT'')]"
    by (simp add: update_rows_def scenario_store_def scenario_room_def)
  moreover from a have "admin_names st' = [Some (JStr ''A'')]"
    by (simp add: admin_names_def scenario_store_def scenario_room_def)
  ultimately show ?thesis using r by simp
qed

end
